theory Spec2Isabelle
  imports Complex_Main
begin

unbundle bit_operations_syntax

section \<open>JavaScript values as the webhook server sees them\<close>

text \<open>
  The file \<^verbatim>\<open>bin/webhook.js\<close> is embedded function by function. A JavaScript string
  is modelled by the bytes of its UTF-8 encoding (\<^typ>\<open>string\<close>), which is what
  \<^verbatim>\<open>Buffer.from(s)\<close> and \<^verbatim>\<open>hmac.update(s, 'utf8')\<close> read; the three characters
  the escaping looks for are ASCII, so replacing them byte by byte is replacing them
  character by character. A surrogate that has no partner, which a JavaScript string can
  hold and UTF-8 cannot encode, is written as the three bytes the encoding scheme gives
  to its code point (\<^verbatim>\<open>ED\<close>, then \<^verbatim>\<open>A0\<close> to \<^verbatim>\<open>BF\<close>, then \<^verbatim>\<open>80\<close> to \<^verbatim>\<open>BF\<close>). The
  body of a request is the value \<^verbatim>\<open>express.json()\<close> leaves in \<^verbatim>\<open>req.body\<close>: a tree of
  JSON values, or \<^verbatim>\<open>undefined\<close>. The numbers of JavaScript are floating point numbers;
  their type \<open>'n\<close> and the operations on them are left open. \<^verbatim>\<open>undefined\<close> (a
  property that is missing, a body that was not parsed) is \<^term>\<open>None\<close> of
  \<open>json option\<close>.
\<close>

datatype 'n json =
    JNull
  | JBool bool
  | JNum 'n
  | JStr string
  | JArr "'n json list"
  | JObj "(string \<times> 'n json) list"

text \<open>What a statement of the source can throw.\<close>

datatype error = TypeError | RangeError

section \<open>What Node.js supplies\<close>

text \<open>
  A request, as the server reads it: the headers, under their names in lower case as
  Node.js gives them, and the bytes of the body.
\<close>

record request =
  headers :: "string \<Rightarrow> string option"
  body_bytes :: string

text \<open>
  The functions of the runtime that the server calls and that are not part of its
  source are parameters of the model, collected in one record: the numbers (whether one
  is truthy, that is neither zero nor NaN; its rendering by \<^verbatim>\<open>ToString\<close> and by
  \<^verbatim>\<open>JSON.stringify\<close>; the time value of the date made from it), the parsing of a date
  string (\<^term>\<open>None\<close> is the time value NaN), the rendering of a valid time value in the
  locale and time zone of the process, the current time, the message of a thrown error,
  the answer of the network to a \<^verbatim>\<open>fetch\<close>, and the body parser
  \<^verbatim>\<open>express.json()\<close>. The parser either refuses the request, and Express answers with
  the error page of the status given, or passes the request on with what it leaves in
  \<^verbatim>\<open>req.body\<close>: the decoded value or, when it did not parse the body, \<^verbatim>\<open>undefined\<close>
  (Express 5; Express 4 leaves the empty object).
\<close>

datatype fetch_result =
    Rejected string
  | Responded bool "string + string"

datatype 'n parsed =
    Refused nat
  | Parsed "'n json option"

record 'n platform =
  Number_truthy :: "'n \<Rightarrow> bool"
  Number_toString :: "'n \<Rightarrow> string"
  Number_toJSON :: "'n \<Rightarrow> string"
  Date_of_number :: "'n \<Rightarrow> int option"
  Date_parse :: "string \<Rightarrow> int option"
  Date_toLocaleString :: "int \<Rightarrow> string"
  Date_now_toISOString :: string
  error_message :: "error \<Rightarrow> string"
  fetch :: "string \<Rightarrow> string \<Rightarrow> fetch_result"
  express_json :: "request \<Rightarrow> 'n parsed"

text \<open>\<^verbatim>\<open>!v\<close> is false exactly for the truthy values.\<close>

fun truthy :: "'n platform \<Rightarrow> 'n json option \<Rightarrow> bool" where
  "truthy P None = False"
| "truthy P (Some JNull) = False"
| "truthy P (Some (JBool b)) = b"
| "truthy P (Some (JNum n)) = Number_truthy P n"
| "truthy P (Some (JStr s)) = (s \<noteq> [])"
| "truthy P (Some (JArr xs)) = True"
| "truthy P (Some (JObj kvs)) = True"

text \<open>
  \<^verbatim>\<open>v.k\<close> for the property names the server reads (\<^verbatim>\<open>event\<close>, \<^verbatim>\<open>data\<close>, \<^verbatim>\<open>user\<close>,
  \<^verbatim>\<open>channel\<close>, \<^verbatim>\<open>timestamp\<close>, \<^verbatim>\<open>message\<close>, \<^verbatim>\<open>context\<close>, \<^verbatim>\<open>url\<close>, \<^verbatim>\<open>title\<close>,
  \<^verbatim>\<open>priority\<close>), none of which a prototype defines: reading a property of
  \<^verbatim>\<open>undefined\<close> or \<^verbatim>\<open>null\<close> throws, an object gives its own property, and every
  other value gives \<^verbatim>\<open>undefined\<close>.
\<close>

fun getProp :: "'n json option \<Rightarrow> string \<Rightarrow> error + 'n json option" where
  "getProp None k = Inl TypeError"
| "getProp (Some JNull) k = Inl TypeError"
| "getProp (Some (JObj kvs)) k = Inr (map_of kvs k)"
| "getProp (Some v) k = Inr None"

section \<open>escapeHtml\<close>

text \<open>\<^verbatim>\<open>s.replace(/c/g, r)\<close> for a one-character pattern and a replacement without \<^verbatim>\<open>$\<close>.\<close>

definition replace_g :: "char \<Rightarrow> string \<Rightarrow> string \<Rightarrow> string" where
  "replace_g c r s = concat (map (\<lambda>x. if x = c then r else [x]) s)"

text \<open>
  \<^verbatim>\<open>
  function escapeHtml(text) {
    if (!text) return '';
    return text.replace(/&/g, '&amp;').replace(/</g, '&lt;').replace(/>/g, '&gt;');
  }
  \<close>
  A truthy value that is not a string has no callable \<^verbatim>\<open>replace\<close>, so the call throws.
\<close>

fun escapeHtml :: "'n platform \<Rightarrow> 'n json option \<Rightarrow> error + string" where
  "escapeHtml P text =
     (if \<not> truthy P text then Inr ''''
      else case text of
          Some (JStr s) \<Rightarrow>
            Inr (replace_g (CHR ''>'') ''&gt;''
                  (replace_g (CHR ''<'') ''&lt;''
                    (replace_g (CHR ''&'') ''&amp;'' s)))
        | _ \<Rightarrow> Inl TypeError)"

definition bind_e :: "error + 'a \<Rightarrow> ('a \<Rightarrow> error + 'b) \<Rightarrow> error + 'b" where
  "bind_e m f = (case m of Inl e \<Rightarrow> Inl e | Inr a \<Rightarrow> f a)"

definition join :: "string \<Rightarrow> string list \<Rightarrow> string" where
  "join sep xs = (case xs of [] \<Rightarrow> [] | y # ys \<Rightarrow> y @ concat (map (\<lambda>z. sep @ z) ys))"

text \<open>
  \<^verbatim>\<open>ToString(v)\<close>, as a template literal applies it. An array is joined with commas, a
  \<^verbatim>\<open>null\<close> element giving the empty string. An object decoded from JSON has no callable
  property of its own: with an own property \<^verbatim>\<open>toString\<close> the conversion finds no
  method that returns a primitive and throws, otherwise \<^verbatim>\<open>Object.prototype.toString\<close>
  answers.
\<close>

fun ToString :: "'n platform \<Rightarrow> 'n json \<Rightarrow> error + string"
  and ToString_elements :: "'n platform \<Rightarrow> 'n json list \<Rightarrow> error + string list" where
  "ToString P JNull = Inr ''null''"
| "ToString P (JBool b) = Inr (if b then ''true'' else ''false'')"
| "ToString P (JNum n) = Inr (Number_toString P n)"
| "ToString P (JStr s) = Inr s"
| "ToString P (JArr xs) = bind_e (ToString_elements P xs) (\<lambda>ss. Inr (join '','' ss))"
| "ToString P (JObj kvs) =
     (if ''toString'' \<in> set (map fst kvs) then Inl TypeError else Inr ''[object Object]'')"
| "ToString_elements P [] = Inr []"
| "ToString_elements P (x # xs) =
     bind_e (if x = JNull then Inr [] else ToString P x) (\<lambda>s.
     bind_e (ToString_elements P xs) (\<lambda>ss. Inr (s # ss)))"

text \<open>\<^verbatim>\<open>`${v}`\<close> for a value that may be \<^verbatim>\<open>undefined\<close>.\<close>

definition template_value :: "'n platform \<Rightarrow> 'n json option \<Rightarrow> error + string" where
  "template_value P v = (case v of None \<Rightarrow> Inr ''undefined'' | Some x \<Rightarrow> ToString P x)"

text \<open>
  \<^verbatim>\<open>new Date(v)\<close>: the time value in milliseconds, \<^term>\<open>None\<close> for an invalid date.
  A string is parsed, an array or object is first converted to a string (with the same
  outcome as \<^const>\<open>ToString\<close>), \<^verbatim>\<open>null\<close> and a boolean are converted to 0 or 1.
\<close>

fun new_Date :: "'n platform \<Rightarrow> 'n json option \<Rightarrow> error + int option" where
  "new_Date P None = Inr None"
| "new_Date P (Some JNull) = Inr (Some 0)"
| "new_Date P (Some (JBool b)) = Inr (Some (if b then 1 else 0))"
| "new_Date P (Some (JNum n)) = Inr (Date_of_number P n)"
| "new_Date P (Some (JStr s)) = Inr (Date_parse P s)"
| "new_Date P (Some v) = bind_e (ToString P v) (\<lambda>s. Inr (Date_parse P s))"

text \<open>\<^verbatim>\<open>d.toLocaleString()\<close>: an invalid date renders as the fixed text.\<close>

definition toLocaleString :: "'n platform \<Rightarrow> int option \<Rightarrow> string" where
  "toLocaleString P d = (case d of None \<Rightarrow> ''Invalid Date'' | Some t \<Rightarrow> Date_toLocaleString P t)"

section \<open>String.prototype.trim\<close>

text \<open>
  The UTF-8 encodings of the characters \<^verbatim>\<open>trim\<close> removes: the white space and line
  terminators of ECMAScript (U+0009 to U+000D, U+0020, U+00A0, U+1680, U+2000 to U+200A,
  U+2028, U+2029, U+202F, U+205F, U+3000, U+FEFF).
\<close>

definition whitespace :: "string list" where
  "whitespace =
     [[CHR 0x09], [CHR 0x0A], [CHR 0x0B], [CHR 0x0C], [CHR 0x0D], [CHR 0x20],
      [CHR 0xC2, CHR 0xA0], [CHR 0xE1, CHR 0x9A, CHR 0x80],
      [CHR 0xE2, CHR 0x80, CHR 0x80], [CHR 0xE2, CHR 0x80, CHR 0x81],
      [CHR 0xE2, CHR 0x80, CHR 0x82], [CHR 0xE2, CHR 0x80, CHR 0x83],
      [CHR 0xE2, CHR 0x80, CHR 0x84], [CHR 0xE2, CHR 0x80, CHR 0x85],
      [CHR 0xE2, CHR 0x80, CHR 0x86], [CHR 0xE2, CHR 0x80, CHR 0x87],
      [CHR 0xE2, CHR 0x80, CHR 0x88], [CHR 0xE2, CHR 0x80, CHR 0x89],
      [CHR 0xE2, CHR 0x80, CHR 0x8A], [CHR 0xE2, CHR 0x80, CHR 0xA8],
      [CHR 0xE2, CHR 0x80, CHR 0xA9], [CHR 0xE2, CHR 0x80, CHR 0xAF],
      [CHR 0xE2, CHR 0x81, CHR 0x9F], [CHR 0xE3, CHR 0x80, CHR 0x80],
      [CHR 0xEF, CHR 0xBB, CHR 0xBF]]"

text \<open>The length of the entry of \<open>ws\<close> the string starts with, 0 when there is none.\<close>

definition lead_len :: "string list \<Rightarrow> string \<Rightarrow> nat" where
  "lead_len ws s = (case find (\<lambda>w. take (length w) s = w) ws of None \<Rightarrow> 0 | Some w \<Rightarrow> length w)"

function strip :: "string list \<Rightarrow> string \<Rightarrow> string" where
  "strip ws s = (if lead_len ws s = 0 \<or> s = [] then s else strip ws (drop (lead_len ws s) s))"
  by pat_completeness auto
termination
  by (relation "measure (\<lambda>(ws, s). length s)") auto

text \<open>\<^verbatim>\<open>trimStart\<close>, \<^verbatim>\<open>trimEnd\<close> and \<^verbatim>\<open>trim\<close>, which removes at both ends.\<close>

definition trimStart :: "string \<Rightarrow> string" where
  "trimStart s = strip whitespace s"

definition trimEnd :: "string \<Rightarrow> string" where
  "trimEnd s = rev (strip (map rev whitespace) (rev s))"

definition trim :: "string \<Rightarrow> string" where
  "trim s = trimEnd (trimStart s)"

section \<open>formatMention and formatNotification\<close>

abbreviation LF :: string where "LF \<equiv> [CHR 0x0A]"
abbreviation DQ :: string where "DQ \<equiv> [CHR 0x22]"

text \<open>The emoji of the templates, as UTF-8.\<close>

definition emoji_target :: string where "emoji_target = [CHR 0xF0, CHR 0x9F, CHR 0x8E, CHR 0xAF]"
definition emoji_link :: string where "emoji_link = [CHR 0xF0, CHR 0x9F, CHR 0x94, CHR 0x97]"
definition emoji_red :: string where "emoji_red = [CHR 0xF0, CHR 0x9F, CHR 0x94, CHR 0xB4]"
definition emoji_white :: string where "emoji_white = [CHR 0xE2, CHR 0x9A, CHR 0xAA]"
definition emoji_blue :: string where "emoji_blue = [CHR 0xF0, CHR 0x9F, CHR 0x94, CHR 0xB5]"

text \<open>\<^verbatim>\<open>a || b\<close>\<close>

definition or_else :: "'n platform \<Rightarrow> 'n json option \<Rightarrow> 'n json option \<Rightarrow> 'n json option" where
  "or_else P a b = (if truthy P a then a else b)"

text \<open>
  The template literal of \<^verbatim>\<open>formatMention\<close>, its holes evaluated from left to right,
  then trimmed:
  \<^verbatim>\<open>
  `
  T <b>@claw Mention in Knobase</b>

  <b>From:</b> ${escapeHtml(data.user)}
  <b>Channel:</b> ${escapeHtml(data.channel || 'Unknown')}
  <b>Time:</b> ${new Date(data.timestamp).toLocaleString()}

  <b>Message:</b>
  ${escapeHtml(data.message)}

  ${data.context ? `<b>Context:</b> ${escapeHtml(data.context)}\n` : ''}
  ${data.url ? `<a href="${data.url}">L Open in Knobase</a>` : ''}
    `.trim()
  \<close>
  (\<^verbatim>\<open>T\<close> and \<^verbatim>\<open>L\<close> stand for the two emoji).
\<close>

definition mention_context :: "'n platform \<Rightarrow> 'n json option \<Rightarrow> error + string" where
  "mention_context P data =
     bind_e (getProp data ''context'') (\<lambda>ctx.
       if truthy P ctx
       then bind_e (escapeHtml P ctx) (\<lambda>x. Inr (''<b>Context:</b> '' @ x @ LF))
       else Inr [])"

definition mention_url :: "'n platform \<Rightarrow> 'n json option \<Rightarrow> error + string" where
  "mention_url P data =
     bind_e (getProp data ''url'') (\<lambda>url.
       if truthy P url
       then bind_e (template_value P url) (\<lambda>u.
              Inr (''<a href='' @ DQ @ u @ DQ @ ''>'' @ emoji_link @ '' Open in Knobase</a>''))
       else Inr [])"

definition formatMention :: "'n platform \<Rightarrow> 'n json option \<Rightarrow> error + string" where
  "formatMention P data =
     bind_e (bind_e (getProp data ''user'') (escapeHtml P)) (\<lambda>user.
     bind_e (bind_e (getProp data ''channel'')
               (\<lambda>c. escapeHtml P (or_else P c (Some (JStr ''Unknown''))))) (\<lambda>channel.
     bind_e (bind_e (getProp data ''timestamp'') (new_Date P)) (\<lambda>d.
     bind_e (bind_e (getProp data ''message'') (escapeHtml P)) (\<lambda>message.
     bind_e (mention_context P data) (\<lambda>context.
     bind_e (mention_url P data) (\<lambda>link.
       Inr (trim
         (LF @ emoji_target @ '' <b>@claw Mention in Knobase</b>'' @ LF
          @ LF
          @ ''<b>From:</b> '' @ user @ LF
          @ ''<b>Channel:</b> '' @ channel @ LF
          @ ''<b>Time:</b> '' @ toLocaleString P d @ LF
          @ LF
          @ ''<b>Message:</b>'' @ LF
          @ message @ LF
          @ LF
          @ context @ LF
          @ link @ LF
          @ ''  ''))))))))"

text \<open>
  \<^verbatim>\<open>
  const emoji = data.priority === 'high' ? R : data.priority === 'low' ? W : B;
  return `
  ${emoji} <b>${escapeHtml(data.title || 'Notification')}</b>

  ${escapeHtml(data.message)}

  <i>${new Date(data.timestamp).toLocaleString()}</i>
    `.trim();
  \<close>
\<close>

definition priority_emoji :: "'n json option \<Rightarrow> string" where
  "priority_emoji p =
     (if p = Some (JStr ''high'') then emoji_red
      else if p = Some (JStr ''low'') then emoji_white
      else emoji_blue)"

definition formatNotification :: "'n platform \<Rightarrow> 'n json option \<Rightarrow> error + string" where
  "formatNotification P data =
     bind_e (getProp data ''priority'') (\<lambda>priority.
     bind_e (bind_e (getProp data ''title'')
               (\<lambda>t. escapeHtml P (or_else P t (Some (JStr ''Notification''))))) (\<lambda>title.
     bind_e (bind_e (getProp data ''message'') (escapeHtml P)) (\<lambda>message.
     bind_e (bind_e (getProp data ''timestamp'') (new_Date P)) (\<lambda>d.
       Inr (trim
         (LF @ priority_emoji priority @ '' <b>'' @ title @ ''</b>'' @ LF
          @ LF
          @ message @ LF
          @ LF
          @ ''<i>'' @ toLocaleString P d @ ''</i>'' @ LF
          @ ''  ''))))))"

section \<open>JSON.stringify\<close>

definition hexdigit :: "int \<Rightarrow> char" where
  "hexdigit n = (let d = n mod 16 in char_of (if d < 10 then 48 + d else 87 + d))"

text \<open>
  How a character is written inside a JSON string: the quote and the backslash are
  escaped, a control character has its short escape or \<^verbatim>\<open>\u00XX\<close>, every other
  character stands for itself.
\<close>

definition quote_char :: "char \<Rightarrow> string" where
  "quote_char c =
     (if c = CHR 0x22 then [CHR 0x5C, CHR 0x22]
      else if c = CHR 0x5C then [CHR 0x5C, CHR 0x5C]
      else if c = CHR 0x08 then [CHR 0x5C, CHR ''b'']
      else if c = CHR 0x09 then [CHR 0x5C, CHR ''t'']
      else if c = CHR 0x0A then [CHR 0x5C, CHR ''n'']
      else if c = CHR 0x0C then [CHR 0x5C, CHR ''f'']
      else if c = CHR 0x0D then [CHR 0x5C, CHR ''r'']
      else if (of_char c :: int) < 32
        then [CHR 0x5C, CHR ''u'', CHR ''0'', CHR ''0'',
              hexdigit (of_char c div 16), hexdigit (of_char c)]
      else [c])"

text \<open>
  A surrogate is a code unit of the string, from \<^verbatim>\<open>D800\<close> to \<^verbatim>\<open>DFFF\<close>. The string is
  read as bytes and surrogates; a high surrogate followed by a low one is one character,
  of four bytes in UTF-8, and any other surrogate is written as the escape of its code
  unit, with lower case digits.
\<close>

datatype item = Byte char | Unit int

definition utf8 :: "int \<Rightarrow> string" where
  "utf8 n =
     (if n < 128 then [char_of n]
      else if n < 2048 then [char_of (192 + n div 64), char_of (128 + n mod 64)]
      else if n < 65536
        then [char_of (224 + n div 4096), char_of (128 + n div 64 mod 64), char_of (128 + n mod 64)]
      else [char_of (240 + n div 262144), char_of (128 + n div 4096 mod 64),
            char_of (128 + n div 64 mod 64), char_of (128 + n mod 64)])"

definition is_surrogate :: "char \<Rightarrow> char \<Rightarrow> char \<Rightarrow> bool" where
  "is_surrogate a b c =
     (a = CHR 0xED \<and> 160 \<le> (of_char b :: int) \<and> (of_char b :: int) < 192
      \<and> 128 \<le> (of_char c :: int) \<and> (of_char c :: int) < 192)"

fun string_items :: "string \<Rightarrow> item list" where
  "string_items (a # b # c # r) =
     (if is_surrogate a b c
      then Unit (53248 + (of_char b - 128) * 64 + (of_char c - 128)) # string_items r
      else Byte a # string_items (b # c # r))"
| "string_items (a # r) = Byte a # string_items r"
| "string_items [] = []"

definition unicode_escape :: "int \<Rightarrow> string" where
  "unicode_escape u =
     [CHR 0x5C, CHR ''u'', hexdigit (u div 4096), hexdigit (u div 256), hexdigit (u div 16),
      hexdigit u]"

definition surrogate_pair :: "int \<Rightarrow> int \<Rightarrow> bool" where
  "surrogate_pair h l = (55296 \<le> h \<and> h < 56320 \<and> 56320 \<le> l \<and> l < 57344)"

definition code_point :: "int \<Rightarrow> int \<Rightarrow> int" where
  "code_point h l = 65536 + (h - 55296) * 1024 + (l - 56320)"

fun quote_items :: "item list \<Rightarrow> string" where
  "quote_items [] = []"
| "quote_items (Byte c # r) = quote_char c @ quote_items r"
| "quote_items [Unit u] = unicode_escape u"
| "quote_items (Unit u # Byte c # r) = unicode_escape u @ quote_char c @ quote_items r"
| "quote_items (Unit h # Unit l # r) =
     (if surrogate_pair h l then utf8 (code_point h l) @ quote_items r
      else unicode_escape h @ quote_items (Unit l # r))"

definition QuoteJSONString :: "string \<Rightarrow> string" where
  "QuoteJSONString s = DQ @ quote_items (string_items s) @ DQ"

text \<open>
  \<^verbatim>\<open>JSON.stringify(v)\<close> with no indentation: no white space between the tokens, the
  members of an object in the order in which the object enumerates them (the order of
  the list).
\<close>

fun JSON_stringify :: "'n platform \<Rightarrow> 'n json \<Rightarrow> string"
  and stringify_elements :: "'n platform \<Rightarrow> 'n json list \<Rightarrow> string list"
  and stringify_members :: "'n platform \<Rightarrow> (string \<times> 'n json) list \<Rightarrow> string list" where
  "JSON_stringify P JNull = ''null''"
| "JSON_stringify P (JBool b) = (if b then ''true'' else ''false'')"
| "JSON_stringify P (JNum n) = Number_toJSON P n"
| "JSON_stringify P (JStr s) = QuoteJSONString s"
| "JSON_stringify P (JArr xs) = ''['' @ join '','' (stringify_elements P xs) @ '']''"
| "JSON_stringify P (JObj kvs) = ''{'' @ join '','' (stringify_members P kvs) @ ''}''"
| "stringify_elements P [] = []"
| "stringify_elements P (x # xs) = JSON_stringify P x # stringify_elements P xs"
| "stringify_members P [] = []"
| "stringify_members P ((k, v) # kvs) =
     (QuoteJSONString k @ '':'' @ JSON_stringify P v) # stringify_members P kvs"

section \<open>HMAC-SHA256\<close>

text \<open>
  \<^verbatim>\<open>crypto.createHmac('sha256', key).update(msg, 'utf8').digest('hex')\<close> is the keyed
  hash of RFC 2104 over SHA-256 (FIPS 180-4), applied to the bytes of the key and of the
  message and written with lower case hexadecimal digits. A 32-bit word is an integer
  from 0 to 4294967295; \<open>rotr p q\<close> rotates a word to the right by \<open>n\<close> bits, \<open>p\<close> being
  2 to the power \<open>n\<close> and \<open>q\<close> being 2 to the power \<open>32 - n\<close>.
\<close>

definition w32 :: "int \<Rightarrow> int" where
  "w32 x = x mod 4294967296"

definition rotr :: "int \<Rightarrow> int \<Rightarrow> int \<Rightarrow> int" where
  "rotr p q x = x div p + (x mod p) * q"

definition bsig0 :: "int \<Rightarrow> int" where
  "bsig0 x = rotr 4 1073741824 x XOR rotr 8192 524288 x XOR rotr 4194304 1024 x"

definition bsig1 :: "int \<Rightarrow> int" where
  "bsig1 x = rotr 64 67108864 x XOR rotr 2048 2097152 x XOR rotr 33554432 128 x"

definition ssig0 :: "int \<Rightarrow> int" where
  "ssig0 x = rotr 128 33554432 x XOR rotr 262144 16384 x XOR x div 8"

definition ssig1 :: "int \<Rightarrow> int" where
  "ssig1 x = rotr 131072 32768 x XOR rotr 524288 8192 x XOR x div 1024"

definition ch :: "int \<Rightarrow> int \<Rightarrow> int \<Rightarrow> int" where
  "ch x y z = (x AND y) XOR ((4294967295 - x) AND z)"

definition maj :: "int \<Rightarrow> int \<Rightarrow> int \<Rightarrow> int" where
  "maj x y z = (x AND y) XOR (x AND z) XOR (y AND z)"

definition sha256_K :: "int list" where
  "sha256_K =
    [
     0x428A2F98, 0x71374491, 0xB5C0FBCF, 0xE9B5DBA5, 0x3956C25B, 0x59F111F1,
     0x923F82A4, 0xAB1C5ED5, 0xD807AA98, 0x12835B01, 0x243185BE, 0x550C7DC3,
     0x72BE5D74, 0x80DEB1FE, 0x9BDC06A7, 0xC19BF174, 0xE49B69C1, 0xEFBE4786,
     0x0FC19DC6, 0x240CA1CC, 0x2DE92C6F, 0x4A7484AA, 0x5CB0A9DC, 0x76F988DA,
     0x983E5152, 0xA831C66D, 0xB00327C8, 0xBF597FC7, 0xC6E00BF3, 0xD5A79147,
     0x06CA6351, 0x14292967, 0x27B70A85, 0x2E1B2138, 0x4D2C6DFC, 0x53380D13,
     0x650A7354, 0x766A0ABB, 0x81C2C92E, 0x92722C85, 0xA2BFE8A1, 0xA81A664B,
     0xC24B8B70, 0xC76C51A3, 0xD192E819, 0xD6990624, 0xF40E3585, 0x106AA070,
     0x19A4C116, 0x1E376C08, 0x2748774C, 0x34B0BCB5, 0x391C0CB3, 0x4ED8AA4A,
     0x5B9CCA4F, 0x682E6FF3, 0x748F82EE, 0x78A5636F, 0x84C87814, 0x8CC70208,
     0x90BEFFFA, 0xA4506CEB, 0xBEF9A3F7, 0xC67178F2]"

definition sha256_H0 :: "int list" where
  "sha256_H0 =
    [
     0x6A09E667, 0xBB67AE85, 0x3C6EF372, 0xA54FF53A, 0x510E527F, 0x9B05688C,
     0x1F83D9AB, 0x5BE0CD19]"

text \<open>
  The message schedule, the most recent word first: a word is made from the words 2, 7,
  15 and 16 places before it.
\<close>

fun schedule_next :: "int list \<Rightarrow> int" where
  "schedule_next (w1 # w2 # w3 # w4 # w5 # w6 # w7 # w8 # w9 # w10 # w11 # w12 # w13 # w14
                   # w15 # w16 # r) =
     w32 (ssig1 w2 + w7 + ssig0 w15 + w16)"
| "schedule_next ws = 0"

fun extend_schedule :: "nat \<Rightarrow> int list \<Rightarrow> int list" where
  "extend_schedule 0 ws = ws"
| "extend_schedule (Suc n) ws = extend_schedule n (schedule_next ws # ws)"

fun sha256_round :: "int list \<Rightarrow> int \<times> int \<Rightarrow> int list" where
  "sha256_round [a, b, c, d, e, f, g, h] (k, w) =
     (let t1 = h + bsig1 e + ch e f g + k + w;
          t2 = bsig0 a + maj a b c
      in [w32 (t1 + t2), a, b, c, w32 (d + t1), e, f, g])"
| "sha256_round s kw = s"

definition compress :: "int list \<Rightarrow> int list \<Rightarrow> int list" where
  "compress hs block =
     map2 (\<lambda>x y. w32 (x + y)) hs
       (foldl sha256_round hs (zip sha256_K (rev (extend_schedule 48 (rev block)))))"

fun be_words :: "int list \<Rightarrow> int list" where
  "be_words (a # b # c # d # r) = (((a * 256 + b) * 256 + c) * 256 + d) # be_words r"
| "be_words r = []"

fun blocks :: "int list \<Rightarrow> int list list" where
  "blocks ws = (if length ws < 16 then [] else take 16 ws # blocks (drop 16 ws))"

declare blocks.simps [simp del]

definition be_bytes :: "int \<Rightarrow> int list" where
  "be_bytes w = [w div 16777216, w div 65536 mod 256, w div 256 mod 256, w mod 256]"

text \<open>
  The padding: the bit 1, zeros up to 56 bytes modulo 64, and the length of the message
  in bits on eight bytes.
\<close>

definition padding :: "int list \<Rightarrow> int list" where
  "padding bs =
     (let n = int (length bs)
      in bs @ [128] @ replicate (nat ((55 - n) mod 64)) 0
         @ be_bytes ((8 * n) div 4294967296) @ be_bytes ((8 * n) mod 4294967296))"

definition sha256 :: "int list \<Rightarrow> int list" where
  "sha256 bs = concat (map be_bytes (foldl compress sha256_H0 (blocks (be_words (padding bs)))))"

definition hmac_sha256 :: "int list \<Rightarrow> int list \<Rightarrow> int list" where
  "hmac_sha256 key msg =
     (let k = (if length key > 64 then sha256 key else key);
          k' = k @ replicate (64 - length k) 0
      in sha256 (map (\<lambda>b. b XOR 92) k' @ sha256 (map (\<lambda>b. b XOR 54) k' @ msg)))"

definition hex :: "int list \<Rightarrow> string" where
  "hex bs = concat (map (\<lambda>b. [hexdigit (b div 16), hexdigit b]) bs)"

definition createHmac_sha256_hex :: "string \<Rightarrow> string \<Rightarrow> string" where
  "createHmac_sha256_hex key msg = hex (hmac_sha256 (map of_char key) (map of_char msg))"

section \<open>verifySignature\<close>

text \<open>
  \<^verbatim>\<open>crypto.timingSafeEqual(a, b)\<close> throws when the two buffers differ in length.
\<close>

definition timingSafeEqual :: "string \<Rightarrow> string \<Rightarrow> error + bool" where
  "timingSafeEqual a b = (if length a \<noteq> length b then Inl RangeError else Inr (a = b))"

text \<open>
  \<^verbatim>\<open>
  function verifySignature(payload, signature, secret) {
    if (!signature || !secret) return true;
    const expected = crypto.createHmac('sha256', secret)
      .update(JSON.stringify(payload), 'utf8').digest('hex');
    try {
      return crypto.timingSafeEqual(Buffer.from(signature), Buffer.from(expected));
    } catch {
      return false;
    }
  }
  \<close>
  The header and the secret are strings or \<^verbatim>\<open>undefined\<close>; the empty string is falsy
  too. \<open>hashed_message\<close> names the argument of \<^verbatim>\<open>update\<close>: \<^verbatim>\<open>JSON.stringify\<close> of
  \<^verbatim>\<open>undefined\<close> is \<^verbatim>\<open>undefined\<close>, and \<^verbatim>\<open>update\<close> throws a \<^verbatim>\<open>TypeError\<close> for an
  argument that is not a string or a buffer. The digest is computed before the
  \<^verbatim>\<open>try\<close> block is entered, so that error leaves the function; what the comparison
  throws is caught.
\<close>

definition hashed_message :: "'n platform \<Rightarrow> 'n json option \<Rightarrow> string option" where
  "hashed_message P payload = map_option (JSON_stringify P) payload"

definition update_digest :: "string \<Rightarrow> string option \<Rightarrow> error + string" where
  "update_digest key data =
     (case data of None \<Rightarrow> Inl TypeError | Some msg \<Rightarrow> Inr (createHmac_sha256_hex key msg))"

definition verifySignature ::
    "'n platform \<Rightarrow> 'n json option \<Rightarrow> string option \<Rightarrow> string option \<Rightarrow> error + bool" where
  "verifySignature P payload signature secret =
     (case signature of
        None \<Rightarrow> Inr True
      | Some sg \<Rightarrow>
          (case secret of
             None \<Rightarrow> Inr True
           | Some sk \<Rightarrow>
               if sg = [] \<or> sk = [] then Inr True
               else
                 bind_e (update_digest sk (hashed_message P payload)) (\<lambda>expected.
                   case timingSafeEqual sg expected of
                     Inl e \<Rightarrow> Inr False
                   | Inr b \<Rightarrow> Inr b)))"

section \<open>sendTelegram\<close>

text \<open>
  What a call does besides returning: the lines it prints and the requests it sends. A
  computation of the server is its outcome (a value or a thrown error) together with
  the effects that happened before it ended.
\<close>

datatype effect =
    Console_log string
  | Console_error string
  | Fetch string string

type_synonym 'a io = "(error + 'a) \<times> effect list"

definition bind_io :: "'a io \<Rightarrow> ('a \<Rightarrow> 'b io) \<Rightarrow> 'b io" where
  "bind_io m f =
     (case m of
        (Inl e, tr) \<Rightarrow> (Inl e, tr)
      | (Inr a, tr) \<Rightarrow> (case f a of (r, tr') \<Rightarrow> (r, tr @ tr')))"

definition pure_io :: "error + 'a \<Rightarrow> 'a io" where
  "pure_io r = (r, [])"

definition console_log :: "string \<Rightarrow> unit io" where
  "console_log s = (Inr (), [Console_log s])"

definition console_error :: "string \<Rightarrow> unit io" where
  "console_error s = (Inr (), [Console_error s])"

text \<open>The configuration is the object \<^verbatim>\<open>loadConfig\<close> builds from the \<^verbatim>\<open>.env\<close> file.\<close>

type_synonym config = "string \<Rightarrow> string option"

text \<open>
  \<^verbatim>\<open>
  async function sendTelegram(message) {
    if (!config.TELEGRAM_BOT_TOKEN || !config.TELEGRAM_CHAT_ID) {
      console.log(chalk.yellow('Telegram not configured, skipping notification'));
      return;
    }
    try {
      const response = await fetch(
        `https://api.telegram.org/bot${config.TELEGRAM_BOT_TOKEN}/sendMessage`,
        { method: 'POST', headers: { 'Content-Type': 'application/json' },
          body: JSON.stringify({ chat_id: config.TELEGRAM_CHAT_ID, text: message,
                                 parse_mode: 'HTML', disable_web_page_preview: false }) });
      if (!response.ok) {
        console.error('Failed to send Telegram message:', await response.text());
      }
    } catch (error) {
      console.error('Telegram error:', error.message);
    }
  }
  \<close>
  \<^term>\<open>Rejected m\<close> is a \<^verbatim>\<open>fetch\<close> that rejects with an error of message \<open>m\<close>;
  \<^term>\<open>Responded ok t\<close> is a response, \<open>t\<close> being what \<^verbatim>\<open>response.text()\<close> gives:
  the text, or the message of the error it rejects with.
\<close>

definition telegram_url :: "string \<Rightarrow> string" where
  "telegram_url token = ''https://api.telegram.org/bot'' @ token @ ''/sendMessage''"

definition telegram_body :: "'n platform \<Rightarrow> string \<Rightarrow> string \<Rightarrow> string" where
  "telegram_body P chat message =
     JSON_stringify P
       (JObj [(''chat_id'', JStr chat), (''text'', JStr message),
              (''parse_mode'', JStr ''HTML''), (''disable_web_page_preview'', JBool False)])"

definition sendTelegram :: "'n platform \<Rightarrow> config \<Rightarrow> string \<Rightarrow> unit io" where
  "sendTelegram P config message =
     (case (config ''TELEGRAM_BOT_TOKEN'', config ''TELEGRAM_CHAT_ID'') of
        (Some token, Some chat) \<Rightarrow>
          if token = [] \<or> chat = []
          then console_log ''Telegram not configured, skipping notification''
          else
            (let url = telegram_url token;
                 body = telegram_body P chat message
             in case fetch P url body of
                  Rejected m \<Rightarrow>
                    (Inr (), [Fetch url body, Console_error (''Telegram error: '' @ m)])
                | Responded ok t \<Rightarrow>
                    if ok then (Inr (), [Fetch url body])
                    else
                      (case t of
                         Inr txt \<Rightarrow>
                           (Inr (), [Fetch url body,
                                     Console_error (''Failed to send Telegram message: '' @ txt)])
                       | Inl m \<Rightarrow>
                           (Inr (), [Fetch url body,
                                     Console_error (''Telegram error: '' @ m)])))
      | _ \<Rightarrow> console_log ''Telegram not configured, skipping notification'')"

section \<open>The webhook endpoint\<close>

datatype 'n response =
    Json_response nat "'n json"
  | Error_page nat

datatype EventKind = Mention | Notification | System | Unknown

text \<open>The \<^verbatim>\<open>switch (event)\<close> of the handler compares with \<^verbatim>\<open>===\<close>.\<close>

definition classify :: "'n json option \<Rightarrow> EventKind" where
  "classify event =
     (if event = Some (JStr ''mention'') then Mention
      else if event = Some (JStr ''notification'') then Notification
      else if event = Some (JStr ''system'') then System
      else Unknown)"

text \<open>
  \<^verbatim>\<open>chalk.blue('System event:', v)\<close> joins its arguments with a space;
  \<^verbatim>\<open>Array.prototype.join\<close> writes \<^verbatim>\<open>undefined\<close> and \<^verbatim>\<open>null\<close> as the empty string.
\<close>

definition join_value :: "'n platform \<Rightarrow> 'n json option \<Rightarrow> error + string" where
  "join_value P v =
     (case v of None \<Rightarrow> Inr [] | Some JNull \<Rightarrow> Inr [] | Some x \<Rightarrow> ToString P x)"

definition check_mark :: string where "check_mark = [CHR 0xE2, CHR 0x9C, CHR 0x93]"

text \<open>
  The four branches of the \<^verbatim>\<open>switch\<close>:
  \<^verbatim>\<open>
  case 'mention':
    await sendTelegram(formatMention(data));
    console.log(chalk.green('V Mention notification sent')); break;
  case 'notification':
    await sendTelegram(formatNotification(data));
    console.log(chalk.green('V Notification sent')); break;
  case 'system':
    console.log(chalk.blue('System event:', data.event)); break;
  default:
    console.log(chalk.yellow(`Unknown event type: ${event}`));
  \<close>
\<close>

definition dispatch ::
    "'n platform \<Rightarrow> config \<Rightarrow> 'n json option \<Rightarrow> string \<Rightarrow> 'n json option \<Rightarrow> unit io" where
  "dispatch P config event event_text data =
     (case classify event of
        Mention \<Rightarrow>
          bind_io (pure_io (formatMention P data)) (\<lambda>message.
          bind_io (sendTelegram P config message) (\<lambda>_.
            console_log (check_mark @ '' Mention notification sent'')))
      | Notification \<Rightarrow>
          bind_io (pure_io (formatNotification P data)) (\<lambda>message.
          bind_io (sendTelegram P config message) (\<lambda>_.
            console_log (check_mark @ '' Notification sent'')))
      | System \<Rightarrow>
          bind_io (pure_io (bind_e (getProp data ''event'') (join_value P))) (\<lambda>s.
            console_log (''System event: '' @ s))
      | Unknown \<Rightarrow> console_log (''Unknown event type: '' @ event_text))"

text \<open>
  The body of the \<^verbatim>\<open>try\<close> block of the handler of \<^verbatim>\<open>POST /webhook/knobase\<close>:
  \<^verbatim>\<open>
  const signature = req.headers['x-knobase-signature'];
  if (!verifySignature(req.body, signature, config.KNOBASE_WEBHOOK_SECRET)) {
    console.log(chalk.red('Invalid webhook signature'));
    return res.status(401).json({ error: 'Invalid signature' });
  }
  const { event, data } = req.body;
  console.log(chalk.gray(`[${new Date().toISOString()}] Received ${event} event`));
  switch (event) { ... }
  res.json({ success: true });
  \<close>
\<close>

definition handler_try ::
    "'n platform \<Rightarrow> config \<Rightarrow> 'n json option \<Rightarrow> string option \<Rightarrow> 'n response io" where
  "handler_try P config body signature =
     bind_io (pure_io (verifySignature P body signature (config ''KNOBASE_WEBHOOK_SECRET'')))
       (\<lambda>valid.
         if \<not> valid
         then bind_io (console_log ''Invalid webhook signature'') (\<lambda>_.
                pure_io (Inr (Json_response 401 (JObj [(''error'', JStr ''Invalid signature'')]))))
         else
           bind_io (pure_io (getProp body ''event'')) (\<lambda>event.
           bind_io (pure_io (getProp body ''data'')) (\<lambda>data.
           bind_io (pure_io (template_value P event)) (\<lambda>event_text.
           bind_io (console_log (''['' @ Date_now_toISOString P @ ''] Received ''
                                  @ event_text @ '' event'')) (\<lambda>_.
           bind_io (dispatch P config event event_text data) (\<lambda>_.
             pure_io (Inr (Json_response 200 (JObj [(''success'', JBool True)])))))))))"

text \<open>
  The handler: what the \<^verbatim>\<open>try\<close> block throws is caught,
  \<^verbatim>\<open>
  } catch (error) {
    console.error(chalk.red('Webhook error:', error.message));
    res.status(500).json({ error: 'Internal error' });
  }
  \<close>
  so a call of the handler ends with a response and the effects.
\<close>

definition webhook_handler ::
    "'n platform \<Rightarrow> config \<Rightarrow> 'n json option \<Rightarrow> string option
      \<Rightarrow> 'n response \<times> effect list" where
  "webhook_handler P config body signature =
     (case handler_try P config body signature of
        (Inr response, tr) \<Rightarrow> (response, tr)
      | (Inl e, tr) \<Rightarrow>
          (Json_response 500 (JObj [(''error'', JStr ''Internal error'')]),
           tr @ [Console_error (''Webhook error: '' @ error_message P e)]))"

text \<open>
  The route behind the body parser:
  \<^verbatim>\<open>
  app.use(express.json());
  app.post('/webhook/knobase', async (req, res) => { ... });
  \<close>
  When the parser refuses the request it passes an error on, the handler is not called,
  and Express answers with its error page of the status of the error. Otherwise the
  handler runs on what the parser left in \<^verbatim>\<open>req.body\<close>. The effects are those of the
  statements of the file.
\<close>

definition knobase_endpoint ::
    "'n platform \<Rightarrow> config \<Rightarrow> request \<Rightarrow> 'n response \<times> effect list" where
  "knobase_endpoint P config req =
     (case express_json P req of
        Refused status \<Rightarrow> (Error_page status, [])
      | Parsed b \<Rightarrow> webhook_handler P config b (headers req ''x-knobase-signature''))"

section \<open>A decoder of JSON texts\<close>

text \<open>
  The examples below run the model on the bytes of a request, so they need a body
  parser. This one follows the JSON grammar and what \<^verbatim>\<open>JSON.parse\<close> builds: a lexer
  that reads one character at a time, then a parser that reads one token at a time and
  keeps the containers under construction on a stack. The value of a number literal is
  given by a function that the parser takes as argument.
\<close>

datatype token =
    T_lbrace | T_rbrace | T_lbracket | T_rbracket | T_colon | T_comma
  | T_string string | T_number string | T_word string

text \<open>
  Inside a string, a character is a byte of the text or the code unit of a
  \<^verbatim>\<open>\uXXXX\<close> escape; two escapes that form a surrogate pair are one code point.
\<close>

fun decode_items :: "item list \<Rightarrow> string" where
  "decode_items [] = []"
| "decode_items (Byte c # r) = c # decode_items r"
| "decode_items [Unit u] = utf8 u"
| "decode_items (Unit u # Byte c # r) = utf8 u @ c # decode_items r"
| "decode_items (Unit h # Unit l # r) =
     (if surrogate_pair h l then utf8 (code_point h l) @ decode_items r
      else utf8 h @ decode_items (Unit l # r))"

definition hexval :: "char \<Rightarrow> int option" where
  "hexval c =
     (let n = (of_char c :: int) in
      if 48 \<le> n \<and> n \<le> 57 then Some (n - 48)
      else if 97 \<le> n \<and> n \<le> 102 then Some (n - 87)
      else if 65 \<le> n \<and> n \<le> 70 then Some (n - 55)
      else None)"

definition unescape :: "char \<Rightarrow> char option" where
  "unescape c =
     (if c = CHR 0x22 \<or> c = CHR 0x5C \<or> c = CHR ''/'' then Some c
      else if c = CHR ''b'' then Some (CHR 0x08)
      else if c = CHR ''f'' then Some (CHR 0x0C)
      else if c = CHR ''n'' then Some (CHR 0x0A)
      else if c = CHR ''r'' then Some (CHR 0x0D)
      else if c = CHR ''t'' then Some (CHR 0x09)
      else None)"

definition is_digit :: "char \<Rightarrow> bool" where
  "is_digit c = (48 \<le> (of_char c :: int) \<and> (of_char c :: int) \<le> 57)"

definition is_letter :: "char \<Rightarrow> bool" where
  "is_letter c = (97 \<le> (of_char c :: int) \<and> (of_char c :: int) \<le> 122)"

definition is_json_space :: "char \<Rightarrow> bool" where
  "is_json_space c = (c = CHR 0x20 \<or> c = CHR 0x09 \<or> c = CHR 0x0A \<or> c = CHR 0x0D)"

definition number_char :: "char \<Rightarrow> bool" where
  "number_char c = (is_digit c \<or> c \<in> set ''+-.eE'')"

text \<open>
  The number grammar: an optional minus, \<^verbatim>\<open>0\<close> or digits without a leading zero, an
  optional fraction, an optional exponent.
\<close>

definition exponent_ok :: "string \<Rightarrow> bool" where
  "exponent_ok s =
     (case s of
        [] \<Rightarrow> True
      | c # r \<Rightarrow>
          (c = CHR ''e'' \<or> c = CHR ''E'')
          \<and> (let ds = (case r of [] \<Rightarrow> [] | x # t \<Rightarrow> if x = CHR ''+'' \<or> x = CHR ''-'' then t else r)
             in ds \<noteq> [] \<and> list_all is_digit ds))"

definition fraction_ok :: "string \<Rightarrow> bool" where
  "fraction_ok s =
     (case s of
        [] \<Rightarrow> True
      | c # r \<Rightarrow>
          if c = CHR ''.'' then takeWhile is_digit r \<noteq> [] \<and> exponent_ok (dropWhile is_digit r)
          else exponent_ok s)"

definition number_ok :: "string \<Rightarrow> bool" where
  "number_ok s =
     (let t = (case s of [] \<Rightarrow> [] | c # r \<Rightarrow> if c = CHR ''-'' then r else s);
          ds = takeWhile is_digit t
      in ds \<noteq> [] \<and> (ds = ''0'' \<or> hd ds \<noteq> CHR ''0'') \<and> fraction_ok (dropWhile is_digit t))"

datatype lexstate =
    L_start
  | L_string "item list"
  | L_escape "item list"
  | L_unicode "item list" "int list"
  | L_number string
  | L_word string

text \<open>A character that does not continue a token: it is white space or starts one.\<close>

definition start_char :: "token list \<Rightarrow> char \<Rightarrow> (lexstate \<times> token list) option" where
  "start_char toks c =
     (if is_json_space c then Some (L_start, toks)
      else if c = CHR ''{'' then Some (L_start, T_lbrace # toks)
      else if c = CHR ''}'' then Some (L_start, T_rbrace # toks)
      else if c = CHR ''['' then Some (L_start, T_lbracket # toks)
      else if c = CHR '']'' then Some (L_start, T_rbracket # toks)
      else if c = CHR '':'' then Some (L_start, T_colon # toks)
      else if c = CHR '','' then Some (L_start, T_comma # toks)
      else if c = CHR 0x22 then Some (L_string [], toks)
      else if c = CHR ''-'' \<or> is_digit c then Some (L_number [c], toks)
      else if is_letter c then Some (L_word [c], toks)
      else None)"

text \<open>The token a number or a word ends with; the characters were collected in reverse.\<close>

definition end_token :: "lexstate \<Rightarrow> token list \<Rightarrow> token list option" where
  "end_token st toks =
     (case st of
        L_start \<Rightarrow> Some toks
      | L_number acc \<Rightarrow> if number_ok (rev acc) then Some (T_number (rev acc) # toks) else None
      | L_word acc \<Rightarrow>
          if rev acc \<in> set [''true'', ''false'', ''null''] then Some (T_word (rev acc) # toks) else None
      | _ \<Rightarrow> None)"

definition lex_step :: "lexstate \<times> token list \<Rightarrow> char \<Rightarrow> (lexstate \<times> token list) option" where
  "lex_step s c =
     (case s of (st, toks) \<Rightarrow>
       (case st of
          L_start \<Rightarrow> start_char toks c
        | L_number acc \<Rightarrow>
            if number_char c then Some (L_number (c # acc), toks)
            else (case end_token st toks of None \<Rightarrow> None | Some toks' \<Rightarrow> start_char toks' c)
        | L_word acc \<Rightarrow>
            if is_letter c then Some (L_word (c # acc), toks)
            else (case end_token st toks of None \<Rightarrow> None | Some toks' \<Rightarrow> start_char toks' c)
        | L_string items \<Rightarrow>
            if c = CHR 0x22 then Some (L_start, T_string (decode_items (rev items)) # toks)
            else if c = CHR 0x5C then Some (L_escape items, toks)
            else if (of_char c :: int) < 32 then None
            else Some (L_string (Byte c # items), toks)
        | L_escape items \<Rightarrow>
            if c = CHR ''u'' then Some (L_unicode items [], toks)
            else (case unescape c of
                    None \<Rightarrow> None
                  | Some x \<Rightarrow> Some (L_string (Byte x # items), toks))
        | L_unicode items hs \<Rightarrow>
            (case hexval c of
               None \<Rightarrow> None
             | Some h \<Rightarrow>
                 if length hs = 3
                 then Some (L_string (Unit (foldl (\<lambda>a d. 16 * a + d) 0 (hs @ [h])) # items), toks)
                 else Some (L_unicode items (hs @ [h]), toks))))"

fun lex_run :: "lexstate \<times> token list \<Rightarrow> string \<Rightarrow> token list option" where
  "lex_run s [] = (case s of (st, toks) \<Rightarrow> map_option rev (end_token st toks))"
| "lex_run s (c # cs) = (case lex_step s c of None \<Rightarrow> None | Some s' \<Rightarrow> lex_run s' cs)"

text \<open>
  An object enumerates its array-index keys first, in ascending order, then the other
  keys in the order of their creation; defining a key again keeps its place.
\<close>

definition digits_value :: "string \<Rightarrow> int" where
  "digits_value k = foldl (\<lambda>a c. 10 * a + (of_char c - 48)) 0 k"

definition is_array_index :: "string \<Rightarrow> bool" where
  "is_array_index k =
     (k \<noteq> [] \<and> list_all is_digit k \<and> (k = ''0'' \<or> hd k \<noteq> CHR ''0'')
      \<and> digits_value k < 4294967295)"

definition index_before :: "string \<Rightarrow> string \<times> 'v \<Rightarrow> bool" where
  "index_before k m = (is_array_index (fst m) \<and> digits_value (fst m) < digits_value k)"

definition define_property :: "(string \<times> 'v) list \<Rightarrow> string \<Rightarrow> 'v \<Rightarrow> (string \<times> 'v) list" where
  "define_property ms k v =
     (if k \<in> set (map fst ms) then map (\<lambda>m. if fst m = k then (k, v) else m) ms
      else if is_array_index k
        then takeWhile (index_before k) ms @ (k, v) # dropWhile (index_before k) ms
      else ms @ [(k, v)])"

datatype 'n frame =
    F_array "'n json list"
  | F_object "(string \<times> 'n json) list" "string option"

datatype 'n pstate =
    S_value | S_first | S_key_first | S_key | S_colon | S_next | S_done "'n json"

text \<open>A value is complete: it is the result, an element, or the value of the pending key.\<close>

definition complete :: "'n json \<Rightarrow> 'n frame list \<Rightarrow> ('n pstate \<times> 'n frame list) option" where
  "complete v stack =
     (case stack of
        [] \<Rightarrow> Some (S_done v, [])
      | F_array es # st \<Rightarrow> Some (S_next, F_array (v # es) # st)
      | F_object ms (Some k) # st \<Rightarrow> Some (S_next, F_object (define_property ms k v) None # st)
      | F_object ms None # st \<Rightarrow> None)"

definition begin_value ::
    "(string \<Rightarrow> 'n) \<Rightarrow> 'n frame list \<Rightarrow> token \<Rightarrow> ('n pstate \<times> 'n frame list) option" where
  "begin_value num stack t =
     (case t of
        T_string s \<Rightarrow> complete (JStr s) stack
      | T_number l \<Rightarrow> complete (JNum (num l)) stack
      | T_word w \<Rightarrow>
          complete (if w = ''true'' then JBool True else if w = ''false'' then JBool False
                    else JNull) stack
      | T_lbracket \<Rightarrow> Some (S_first, F_array [] # stack)
      | T_lbrace \<Rightarrow> Some (S_key_first, F_object [] None # stack)
      | _ \<Rightarrow> None)"

definition close_array :: "'n frame list \<Rightarrow> ('n pstate \<times> 'n frame list) option" where
  "close_array stack =
     (case stack of F_array es # st \<Rightarrow> complete (JArr (rev es)) st | _ \<Rightarrow> None)"

definition close_object :: "'n frame list \<Rightarrow> ('n pstate \<times> 'n frame list) option" where
  "close_object stack =
     (case stack of F_object ms None # st \<Rightarrow> complete (JObj ms) st | _ \<Rightarrow> None)"

definition read_key :: "'n frame list \<Rightarrow> token \<Rightarrow> ('n pstate \<times> 'n frame list) option" where
  "read_key stack t =
     (case t of
        T_string k \<Rightarrow>
          (case stack of
             F_object ms None # st \<Rightarrow> Some (S_colon, F_object ms (Some k) # st)
           | _ \<Rightarrow> None)
      | _ \<Rightarrow> None)"

definition parse_step ::
    "(string \<Rightarrow> 'n) \<Rightarrow> 'n pstate \<times> 'n frame list \<Rightarrow> token
      \<Rightarrow> ('n pstate \<times> 'n frame list) option" where
  "parse_step num s t =
     (case s of (st, stack) \<Rightarrow>
       (case st of
          S_value \<Rightarrow> begin_value num stack t
        | S_first \<Rightarrow> if t = T_rbracket then close_array stack else begin_value num stack t
        | S_key_first \<Rightarrow> if t = T_rbrace then close_object stack else read_key stack t
        | S_key \<Rightarrow> read_key stack t
        | S_colon \<Rightarrow> if t = T_colon then Some (S_value, stack) else None
        | S_next \<Rightarrow>
            if t = T_comma
            then (case stack of
                    [] \<Rightarrow> None
                  | F_array es # st \<Rightarrow> Some (S_value, stack)
                  | F_object ms k # st \<Rightarrow> Some (S_key, stack))
            else if t = T_rbracket then close_array stack
            else if t = T_rbrace then close_object stack
            else None
        | S_done v \<Rightarrow> None))"

fun parse_run ::
    "(string \<Rightarrow> 'n) \<Rightarrow> 'n pstate \<times> 'n frame list \<Rightarrow> token list \<Rightarrow> 'n json option" where
  "parse_run num s [] = (case s of (S_done v, []) \<Rightarrow> Some v | _ \<Rightarrow> None)"
| "parse_run num s (t # ts) =
     (case parse_step num s t of None \<Rightarrow> None | Some s' \<Rightarrow> parse_run num s' ts)"

definition JSON_parse :: "(string \<Rightarrow> 'n) \<Rightarrow> string \<Rightarrow> 'n json option" where
  "JSON_parse num text =
     (case lex_run (L_start, []) text of
        None \<Rightarrow> None
      | Some toks \<Rightarrow> parse_run num (S_value, []) toks)"

text \<open>
  The bytes of a body are decoded as UTF-8 before they are parsed: bytes that are not
  the encoding of a character are replaced by U+FFFD, one for each longest run of bytes
  that starts an encoding, and a byte order mark at the start of the text is dropped.
  \<open>lead_ranges\<close> gives, for the first byte of an encoding, the ranges of the bytes that
  have to follow it.
\<close>

definition lead_ranges :: "int \<Rightarrow> (int \<times> int) list" where
  "lead_ranges b =
     (if 194 \<le> b \<and> b \<le> 223 then [(128, 191)]
      else if b = 224 then [(160, 191), (128, 191)]
      else if b = 237 then [(128, 159), (128, 191)]
      else if 225 \<le> b \<and> b \<le> 239 then [(128, 191), (128, 191)]
      else if b = 240 then [(144, 191), (128, 191), (128, 191)]
      else if 241 \<le> b \<and> b \<le> 243 then [(128, 191), (128, 191), (128, 191)]
      else if b = 244 then [(128, 143), (128, 191), (128, 191)]
      else [])"

definition replacement :: string where
  "replacement = [CHR 0xEF, CHR 0xBF, CHR 0xBD]"

fun decode_utf8 :: "(int \<times> int) list \<Rightarrow> string \<Rightarrow> string \<Rightarrow> string" where
  "decode_utf8 [] acc [] = []"
| "decode_utf8 (rg # rs) acc [] = replacement"
| "decode_utf8 [] acc (c # s) =
     (if (of_char c :: int) < 128 then c # decode_utf8 [] [] s
      else if lead_ranges (of_char c) = [] then replacement @ decode_utf8 [] [] s
      else decode_utf8 (lead_ranges (of_char c)) [c] s)"
| "decode_utf8 (rg # rs) acc (c # s) =
     (if fst rg \<le> of_char c \<and> of_char c \<le> snd rg
      then (if rs = [] then rev (c # acc) @ decode_utf8 [] [] s else decode_utf8 rs (c # acc) s)
      else replacement @ decode_utf8 [] [] (c # s))"

definition decode_text :: "string \<Rightarrow> string" where
  "decode_text bytes =
     (let t = decode_utf8 [] [] bytes
      in if take 3 t = [CHR 0xEF, CHR 0xBB, CHR 0xBF] then drop 3 t else t)"

text \<open>
  The parser of \<^verbatim>\<open>express.json()\<close> in its default, strict mode: an empty text is the
  empty object, and a text is parsed only when its first character after white space
  opens an object or an array.
\<close>

definition strict_json :: "(string \<Rightarrow> 'n) \<Rightarrow> string \<Rightarrow> 'n json option" where
  "strict_json num text =
     (if text = [] then Some (JObj [])
      else
        (case dropWhile is_json_space text of
           [] \<Rightarrow> None
         | c # r \<Rightarrow> if c = CHR ''{'' \<or> c = CHR ''['' then JSON_parse num text else None))"

section \<open>A platform for the examples\<close>

text \<open>
  The theorems below hold for every platform. To run the model on concrete requests one
  platform is fixed here: Express 5 with the defaults of \<^verbatim>\<open>express.json()\<close>, in a process
  in the time zone UTC with the locale en-GB.

  Its body parser passes a request on unparsed when the request announces no body (no
  \<^verbatim>\<open>Content-Length\<close> and no \<^verbatim>\<open>Transfer-Encoding\<close> header) or when the media type of
  its \<^verbatim>\<open>Content-Type\<close> is not \<^verbatim>\<open>application/json\<close>; it refuses a body of more than 100
  kilobytes with the status 413 and a text that is not JSON with the status 400. The
  body is taken to be in the identity encoding and the charset UTF-8.
\<close>

definition lower_case :: "char \<Rightarrow> char" where
  "lower_case c =
     (if 65 \<le> (of_char c :: int) \<and> (of_char c :: int) \<le> 90 then char_of (of_char c + 32 :: int)
      else c)"

definition is_blank :: "char \<Rightarrow> bool" where
  "is_blank c = (c = CHR 0x20 \<or> c = CHR 0x09)"

definition media_type :: "string \<Rightarrow> string" where
  "media_type v =
     map lower_case
       (rev (dropWhile is_blank (rev (dropWhile is_blank (takeWhile (\<lambda>c. c \<noteq> CHR '';'') v)))))"

definition has_body :: "request \<Rightarrow> bool" where
  "has_body req =
     (headers req ''transfer-encoding'' \<noteq> None \<or> headers req ''content-length'' \<noteq> None)"

definition express_json_5 :: "(string \<Rightarrow> 'n) \<Rightarrow> request \<Rightarrow> 'n parsed" where
  "express_json_5 num req =
     (if \<not> has_body req then Parsed None
      else
        (case headers req ''content-type'' of
           None \<Rightarrow> Parsed None
         | Some v \<Rightarrow>
             if media_type v \<noteq> ''application/json'' then Parsed None
             else if 102400 < int (length (body_bytes req)) then Refused 413
             else
               (case strict_json num (decode_text (body_bytes req)) of
                  None \<Rightarrow> Refused 400
                | Some b \<Rightarrow> Parsed (Some b))))"

text \<open>
  A number of the examples is a safe integer, written as a literal without fraction and
  without exponent; \<^verbatim>\<open>-0\<close> behaves as 0 in every operation the server applies. A number
  written in another way is carried as the text of its literal, which stands for its
  rendering and makes no date: the examples contain no such number.
\<close>

datatype example_number = Safe_integer int | Other_number string

definition number_of_literal :: "string \<Rightarrow> example_number" where
  "number_of_literal l =
     (let ds = (case l of [] \<Rightarrow> [] | c # r \<Rightarrow> if c = CHR ''-'' then r else l)
      in if list_all is_digit ds \<and> digits_value ds \<le> 9007199254740991
         then Safe_integer (if ds = l then digits_value ds else - digits_value ds)
         else Other_number l)"

definition digit_char :: "int \<Rightarrow> char" where
  "digit_char n = char_of (48 + n mod 10)"

definition decimal :: "int \<Rightarrow> string" where
  "decimal v =
     (let ds = dropWhile (\<lambda>c. c = CHR ''0'')
                 (map (\<lambda>p. digit_char (\<bar>v\<bar> div p))
                    [1000000000000000, 100000000000000, 10000000000000, 1000000000000,
                     100000000000, 10000000000, 1000000000, 100000000, 10000000, 1000000,
                     100000, 10000, 1000, 100, 10, 1])
      in (if v < 0 then ''-'' else []) @ (if ds = [] then ''0'' else ds))"

definition literal_truthy :: "string \<Rightarrow> bool" where
  "literal_truthy l =
     (\<exists>c \<in> set (takeWhile (\<lambda>c. c \<noteq> CHR ''e'' \<and> c \<noteq> CHR ''E'') l). is_digit c \<and> c \<noteq> CHR ''0'')"

definition example_truthy :: "example_number \<Rightarrow> bool" where
  "example_truthy n = (case n of Safe_integer v \<Rightarrow> v \<noteq> 0 | Other_number l \<Rightarrow> literal_truthy l)"

definition example_toString :: "example_number \<Rightarrow> string" where
  "example_toString n = (case n of Safe_integer v \<Rightarrow> decimal v | Other_number l \<Rightarrow> l)"

definition example_time_value :: "example_number \<Rightarrow> int option" where
  "example_time_value n =
     (case n of
        Safe_integer v \<Rightarrow> if \<bar>v\<bar> \<le> 8640000000000000 then Some v else None
      | Other_number l \<Rightarrow> None)"

text \<open>
  The calendar: a date string of the form \<^verbatim>\<open>YYYY-MM-DDTHH:mm:ssZ\<close> is parsed, and
  every other string is taken to be no date; a time value of the years 1 to 9999 is
  rendered as en-GB does in UTC, \<^verbatim>\<open>DD/MM/YYYY, HH:mm:ss\<close>.
\<close>

definition days_from_civil :: "int \<Rightarrow> int \<Rightarrow> int \<Rightarrow> int" where
  "days_from_civil y m d =
     (let y' = (if m \<le> 2 then y - 1 else y);
          era = y' div 400;
          yoe = y' - era * 400;
          doy = (153 * (if m > 2 then m - 3 else m + 9) + 2) div 5 + d - 1;
          doe = yoe * 365 + yoe div 4 - yoe div 100 + doy
      in era * 146097 + doe - 719468)"

definition civil_from_days :: "int \<Rightarrow> int \<times> int \<times> int" where
  "civil_from_days z =
     (let z' = z + 719468;
          era = z' div 146097;
          doe = z' - era * 146097;
          yoe = (doe - doe div 1460 + doe div 36524 - doe div 146096) div 365;
          doy = doe - (365 * yoe + yoe div 4 - yoe div 100);
          mp = (5 * doy + 2) div 153;
          d = doy - (153 * mp + 2) div 5 + 1;
          m = (if mp < 10 then mp + 3 else mp - 9)
      in (if m \<le> 2 then yoe + era * 400 + 1 else yoe + era * 400, m, d))"

definition days_in_month :: "int \<Rightarrow> int \<Rightarrow> int" where
  "days_in_month y m =
     (if m = 2 then (if y mod 4 = 0 \<and> (y mod 100 \<noteq> 0 \<or> y mod 400 = 0) then 29 else 28)
      else if m \<in> {4, 6, 9, 11} then 30 else 31)"

definition field :: "string \<Rightarrow> nat \<Rightarrow> nat \<Rightarrow> int" where
  "field s i n = digits_value (take n (drop i s))"

definition iso_utc_parse :: "string \<Rightarrow> int option" where
  "iso_utc_parse s =
     (if length s = 20
         \<and> map ((!) s) [4, 7, 10, 13, 16, 19] = ''--T::Z''
         \<and> list_all (\<lambda>i. is_digit (s ! i)) [0, 1, 2, 3, 5, 6, 8, 9, 11, 12, 14, 15, 17, 18]
         \<and> 1 \<le> field s 5 2 \<and> field s 5 2 \<le> 12
         \<and> 1 \<le> field s 8 2 \<and> field s 8 2 \<le> days_in_month (field s 0 4) (field s 5 2)
         \<and> field s 11 2 \<le> 23 \<and> field s 14 2 \<le> 59 \<and> field s 17 2 \<le> 59
      then Some ((((days_from_civil (field s 0 4) (field s 5 2) (field s 8 2) * 24
                      + field s 11 2) * 60 + field s 14 2) * 60 + field s 17 2) * 1000)
      else None)"

definition pad2 :: "int \<Rightarrow> string" where
  "pad2 n = [digit_char (n div 10), digit_char n]"

definition pad4 :: "int \<Rightarrow> string" where
  "pad4 n = [digit_char (n div 1000), digit_char (n div 100), digit_char (n div 10), digit_char n]"

definition en_GB_utc :: "int \<Rightarrow> string" where
  "en_GB_utc t =
     (let secs = t div 1000;
          ymd = civil_from_days (secs div 86400);
          r = secs mod 86400
      in pad2 (snd (snd ymd)) @ ''/'' @ pad2 (fst (snd ymd)) @ ''/'' @ pad4 (fst ymd) @ '', ''
         @ pad2 (r div 3600) @ '':'' @ pad2 (r div 60 mod 60) @ '':'' @ pad2 (r mod 60))"

text \<open>
  The message of an error is represented by the name of the class of the error, the
  clock shows the first instant of 2024, and the network answers every request with
  success.
\<close>

definition example_platform :: "example_number platform" where
  "example_platform =
     \<lparr> Number_truthy = example_truthy,
       Number_toString = example_toString,
       Number_toJSON = example_toString,
       Date_of_number = example_time_value,
       Date_parse = iso_utc_parse,
       Date_toLocaleString = en_GB_utc,
       Date_now_toISOString = ''2024-01-01T00:00:00.000Z'',
       error_message = (\<lambda>e. case e of TypeError \<Rightarrow> ''TypeError'' | RangeError \<Rightarrow> ''RangeError''),
       fetch = (\<lambda>url body. Responded True (Inr ''{}'')),
       express_json = express_json_5 number_of_literal \<rparr>"

definition example_config :: config where
  "example_config =
     [''AGENT_ID'' \<mapsto> ''knobase_agent_1'', ''KNOBASE_WEBHOOK_SECRET'' \<mapsto> ''s3cret'',
      ''TELEGRAM_BOT_TOKEN'' \<mapsto> ''123:abc'', ''TELEGRAM_CHAT_ID'' \<mapsto> ''42'']"

text \<open>The same process without network, and the same configuration without Telegram.\<close>

definition offline_platform :: "example_number platform" where
  "offline_platform = example_platform \<lparr> fetch := (\<lambda>url body. Rejected ''fetch failed'') \<rparr>"

definition config_without_telegram :: config where
  "config_without_telegram = example_config (''TELEGRAM_BOT_TOKEN'' := None)"

text \<open>
  A POST with a body of the media type given, and with the signature header given if
  any.
\<close>

definition post :: "string \<Rightarrow> string \<Rightarrow> string option \<Rightarrow> request" where
  "post media bytes signature =
     \<lparr> headers =
         [''content-type'' \<mapsto> media, ''content-length'' \<mapsto> decimal (int (length bytes))]
           (''x-knobase-signature'' := signature),
       body_bytes = bytes \<rparr>"

text \<open>
  Bodies of requests, as bytes on the wire: an event of unknown kind written with and
  without a space after the colon, a mention, and a text that ends too early.
\<close>

definition ping_spaced :: string where
  "ping_spaced = ''{\"event\": \"ping\"}''"

definition ping_compact :: string where
  "ping_compact = ''{\"event\":\"ping\"}''"

definition mention_alice :: string where
  "mention_alice =
     ''{\"event\":\"mention\",\"data\":{\"user\":\"alice\",\"channel\":\"general\",''
     @ ''\"timestamp\":\"2024-01-01T00:00:00Z\",\"message\":\"hi <there>\"}}''"

definition truncated_body :: string where
  "truncated_body = ''{\"event\":''"

text \<open>
  Data of events: one with every field the templates read, markup characters and quotes
  in the texts and in the url; one whose timestamp is no date.
\<close>

definition full_fields :: "(string \<times> example_number json) list" where
  "full_fields =
     [(''user'', JStr ''Tom & Jerry''), (''channel'', JStr ''''), (''title'', JStr ''<ops>''),
      (''priority'', JStr ''low''), (''message'', JStr ''say \"1 < 2\"''),
      (''context'', JStr ''a > b''), (''timestamp'', JStr ''2024-01-01T00:00:00Z''),
      (''url'', JStr ''https://kb.example/p?a=1&b=\"<2>\"'')]"

definition stale_fields :: "(string \<times> example_number json) list" where
  "stale_fields =
     [(''user'', JStr ''bob''), (''message'', JStr ''deploy done''),
      (''timestamp'', JStr ''yesterday'')]"

text \<open>The data of the mention above, decoded, and the messages expected for two of them.\<close>

definition alice_fields :: "(string \<times> example_number json) list" where
  "alice_fields =
     [(''user'', JStr ''alice''), (''channel'', JStr ''general''),
      (''timestamp'', JStr ''2024-01-01T00:00:00Z''), (''message'', JStr ''hi <there>'')]"

definition alice_message :: string where
  "alice_message =
     emoji_target @ '' <b>@claw Mention in Knobase</b>'' @ LF
     @ LF
     @ ''<b>From:</b> alice'' @ LF
     @ ''<b>Channel:</b> general'' @ LF
     @ ''<b>Time:</b> 01/01/2024, 00:00:00'' @ LF
     @ LF
     @ ''<b>Message:</b>'' @ LF
     @ ''hi &lt;there&gt;''"

definition full_link :: string where
  "full_link =
     ''<a href=\"https://kb.example/p?a=1&b=\"<2>\"\">'' @ emoji_link @ '' Open in Knobase</a>''"

definition full_mention_message :: string where
  "full_mention_message =
     emoji_target @ '' <b>@claw Mention in Knobase</b>'' @ LF
     @ LF
     @ ''<b>From:</b> Tom &amp; Jerry'' @ LF
     @ ''<b>Channel:</b> Unknown'' @ LF
     @ ''<b>Time:</b> 01/01/2024, 00:00:00'' @ LF
     @ LF
     @ ''<b>Message:</b>'' @ LF
     @ ''say \"1 &lt; 2\"'' @ LF
     @ LF
     @ ''<b>Context:</b> a &gt; b'' @ LF
     @ LF
     @ full_link"

text \<open>
  Decoded bodies: the event of unknown kind and the mention above, a mention without
  data, a notification and a system event; and the line the handler prints when it has
  read the kind of an event.
\<close>

definition ping :: "example_number json" where
  "ping = JObj [(''event'', JStr ''ping'')]"

definition mention_event :: "example_number json" where
  "mention_event = JObj [(''event'', JStr ''mention''), (''data'', JObj alice_fields)]"

definition dataless_mention :: "example_number json" where
  "dataless_mention = JObj [(''event'', JStr ''mention'')]"

definition notification_event :: "example_number json" where
  "notification_event = JObj [(''event'', JStr ''notification''), (''data'', JObj stale_fields)]"

definition system_event :: "example_number json" where
  "system_event = JObj [(''event'', JStr ''system''), (''data'', JObj [(''event'', JStr ''restart'')])]"

definition received :: "string \<Rightarrow> effect" where
  "received kind = Console_log (''[2024-01-01T00:00:00.000Z] Received '' @ kind @ '' event'')"

text \<open>
  The digests, under the secret of the configuration, of the two texts of the event of
  unknown kind.
\<close>

definition ping_spaced_digest :: string where
  "ping_spaced_digest = ''400b9a152c612d549d133b2242c5764ef59a547fe7c5bef8305270121ac74119''"

definition ping_compact_digest :: string where
  "ping_compact_digest = ''dfdb9d36759a59dc252c24d194f7122a8df08cb88f87fa8d5c6b24ff48fe45d8''"

text \<open>The messages made from the data whose timestamp is no date.\<close>

definition stale_notification :: string where
  "stale_notification =
     emoji_blue @ '' <b>Notification</b>'' @ LF
     @ LF
     @ ''deploy done'' @ LF
     @ LF
     @ ''<i>Invalid Date</i>''"

definition stale_mention :: string where
  "stale_mention =
     emoji_target @ '' <b>@claw Mention in Knobase</b>'' @ LF
     @ LF
     @ ''<b>From:</b> bob'' @ LF
     @ ''<b>Channel:</b> Unknown'' @ LF
     @ ''<b>Time:</b> Invalid Date'' @ LF
     @ LF
     @ ''<b>Message:</b>'' @ LF
     @ ''deploy done''"





text \<open>
  The same process with a network that answers every request with an error status, and
  with one whose answers cannot be read.
\<close>

definition refusing_platform :: "example_number platform" where
  "refusing_platform =
     example_platform \<lparr> fetch := (\<lambda>url body. Responded False (Inr ''Bad Request'')) \<rparr>"

definition unreadable_platform :: "example_number platform" where
  "unreadable_platform =
     example_platform \<lparr> fetch := (\<lambda>url body. Responded False (Inl ''terminated'')) \<rparr>"

text \<open>The request \<^verbatim>\<open>sendTelegram\<close> sends for a message under the example configuration.\<close>

definition example_fetch :: "string \<Rightarrow> effect" where
  "example_fetch message =
     Fetch (telegram_url ''123:abc'') (telegram_body example_platform ''42'' message)"

section \<open>The escaping policy, in the words of the specification\<close>



text \<open>\<^verbatim>\<open>s.includes(t)\<close>: \<open>t\<close> occurs in \<open>s\<close>.\<close>

fun str_includes :: "string \<Rightarrow> string \<Rightarrow> bool" where
  "str_includes [] t = (t = [])"
| "str_includes (c # s) t = (take (length t) (c # s) = t \<or> str_includes s t)"

section \<open>Lemmas on the building blocks\<close>

subsection \<open>Sequencing\<close>

lemma bind_e_simps: "bind_e (Inr x) f = f x" "bind_e (Inl e) f = Inl e"
  by (simp_all add: bind_e_def)


lemma bind_io_Inr: "bind_io (Inr a, tr) f = (fst (f a), tr @ snd (f a))"
  by (simp add: bind_io_def split: prod.splits)

lemma bind_io_Inl: "bind_io (Inl e, tr) f = (Inl e, tr)"
  by (simp add: bind_io_def)

lemma bind_io_log: "bind_io (console_log s) f = (fst (f ()), Console_log s # snd (f ()))"
  by (simp add: bind_io_def console_log_def split: prod.splits)

lemma sendTelegram_Inr: "fst (sendTelegram P config m) = Inr ()"
  by (simp add: sendTelegram_def console_log_def Let_def
      split: option.splits fetch_result.splits sum.splits)

lemma bind_io_send:
  "bind_io (sendTelegram P config m) f
     = (fst (f ()), snd (sendTelegram P config m) @ snd (f ()))"
  using sendTelegram_Inr [of P config m]
  by (cases "sendTelegram P config m") (simp add: bind_io_def split: prod.splits)

lemma fst_snd_log: "fst (console_log s) = Inr ()" "snd (console_log s) = [Console_log s]"
  by (simp_all add: console_log_def)

lemma bind_io_pure:
  "bind_io (pure_io (Inr a)) f = f a"
  "bind_io (pure_io (Inl e)) f = (Inl e, [])"
  by (simp_all add: bind_io_def pure_io_def split: prod.splits)

lemmas io_simps = pure_io_def bind_io_Inr bind_io_Inl bind_io_log bind_io_send fst_snd_log

subsection \<open>Trimming\<close>

declare strip.simps [simp del]

lemma strip_stop: "lead_len ws s = 0 \<Longrightarrow> strip ws s = s"
  by (subst strip.simps) simp

lemma strip_step: "lead_len ws (c # s) = Suc n \<Longrightarrow> strip ws (c # s) = strip ws (drop n s)"
  by (subst strip.simps) simp

lemma lead_len_LF: "lead_len whitespace (CHR 0x0A # s) = Suc 0"
  by (simp add: lead_len_def whitespace_def)

lemma lead_len_target: "lead_len whitespace (CHR 0xF0 # s) = 0"
  by (simp add: lead_len_def whitespace_def)

lemma lead_len_white: "lead_len whitespace (CHR 0xE2 # CHR 0x9A # s) = 0"
  by (simp add: lead_len_def whitespace_def)

lemma strip_front_F0: "strip whitespace (CHR 0x0A # CHR 0xF0 # s) = CHR 0xF0 # s"
  using strip_step [OF lead_len_LF] by (simp add: strip_stop lead_len_target)

lemma strip_front_E2: "strip whitespace (CHR 0x0A # CHR 0xE2 # CHR 0x9A # s) = CHR 0xE2 # CHR 0x9A # s"
  using strip_step [OF lead_len_LF] by (simp add: strip_stop lead_len_white)

lemma lead_len_rev_space: "lead_len (map rev whitespace) (CHR 0x20 # s) = Suc 0"
  by (simp add: lead_len_def whitespace_def)

lemma lead_len_rev_LF: "lead_len (map rev whitespace) (CHR 0x0A # s) = Suc 0"
  by (simp add: lead_len_def whitespace_def)

lemma lead_len_rev_gt: "lead_len (map rev whitespace) (CHR ''>'' # s) = 0"
  by (simp add: lead_len_def whitespace_def)

lemma strip_back_gt:
  "strip (map rev whitespace) (CHR 0x20 # CHR 0x20 # CHR 0x0A # CHR ''>'' # s) = CHR ''>'' # s"
  using strip_step [OF lead_len_rev_space] strip_step [OF lead_len_rev_LF]
  by (simp add: strip_stop lead_len_rev_gt)

lemma lead_len_Nil: "lead_len ws [] = 0"
  by (induction ws) (auto simp add: lead_len_def)

lemma lead_len_le: "lead_len ws s \<le> length s"
proof (cases "find (\<lambda>w. take (length w) s = w) ws")
  case None
  then show ?thesis by (simp add: lead_len_def)
next
  case (Some w)
  then have "take (length w) s = w" by (auto simp add: find_Some_iff)
  then have "length (take (length w) s) = length w" by simp
  then have "length w \<le> length s" by simp
  with Some show ?thesis by (simp add: lead_len_def)
qed

lemma take_guard:
  assumes "c \<notin> set w"
  shows "(take (length w) (b @ c # x) = w) = (take (length w) b = w)"
proof (cases "length w \<le> length b")
  case True
  then show ?thesis by simp
next
  case False
  then obtain k where k: "length w - length b = Suc k"
    by (metis Suc_diff_Suc not_le)
  then have "c \<in> set (take (length w) (b @ c # x))" by simp
  with assms have "take (length w) (b @ c # x) \<noteq> w" by metis
  moreover have "take (length w) b \<noteq> w"
  proof
    assume "take (length w) b = w"
    then have "length (take (length w) b) = length w" by simp
    with False show False by simp
  qed
  ultimately show ?thesis by simp
qed

lemma find_guard:
  assumes "\<And>w. w \<in> set ws \<Longrightarrow> c \<notin> set w"
  shows "find (\<lambda>w. take (length w) (b @ c # x) = w) ws = find (\<lambda>w. take (length w) b = w) ws"
  using assms
proof (induction ws)
  case Nil
  show ?case by simp
next
  case (Cons a ws)
  have a: "(take (length a) (b @ c # x) = a) = (take (length a) b = a)"
    by (rule take_guard) (simp add: Cons.prems)
  have "find (\<lambda>w. take (length w) (b @ c # x) = w) ws = find (\<lambda>w. take (length w) b = w) ws"
    by (rule Cons.IH) (simp add: Cons.prems)
  with a show ?case by (simp only: find.simps)
qed

lemma lead_len_guard:
  assumes "\<And>w. w \<in> set ws \<Longrightarrow> c \<notin> set w"
  shows "lead_len ws (b @ c # x) = lead_len ws b"
  by (simp only: lead_len_def find_guard [OF assms])

lemma strip_guard:
  assumes "\<And>w. w \<in> set ws \<Longrightarrow> c \<notin> set w"
  shows "strip ws (b @ c # x) = strip ws b @ c # x"
  using assms
proof (induction ws b rule: strip.induct)
  case (1 ws s)
  have g: "lead_len ws (s @ c # x) = lead_len ws s"
    by (rule lead_len_guard) (rule 1)
  show ?case
  proof (cases "lead_len ws s = 0 \<or> s = []")
    case True
    then have "lead_len ws s = 0" by (auto simp add: lead_len_Nil)
    with g show ?thesis by (simp add: strip_stop)
  next
    case False
    have le: "lead_len ws s \<le> length s" by (rule lead_len_le)
    from False have "strip ws (s @ c # x) = strip ws (drop (lead_len ws s) (s @ c # x))"
      by (subst strip.simps) (simp add: g)
    also from le have "\<dots> = strip ws (drop (lead_len ws s) s @ c # x)" by simp
    also have "\<dots> = strip ws (drop (lead_len ws s) s) @ c # x"
      by (rule "1.IH" [OF False]) (rule "1.prems")
    also from False have "strip ws (drop (lead_len ws s) s) = strip ws s"
      by (subst (2) strip.simps) simp
    finally show ?thesis .
  qed
qed

lemma gt_not_whitespace: "w \<in> set (map rev whitespace) \<Longrightarrow> CHR ''>'' \<notin> set w"
  by (auto simp add: whitespace_def)

lemma strip_back_guard:
  "strip (map rev whitespace) (b @ CHR ''>'' # x) = strip (map rev whitespace) b @ CHR ''>'' # x"
  by (rule strip_guard) (rule gt_not_whitespace)

lemma trim_guarded:
  "trim (CHR 0x0A # CHR 0xF0 # f @ CHR ''>'' # tail) = CHR 0xF0 # f @ CHR ''>'' # trimEnd tail"
  by (simp add: trim_def trimStart_def trimEnd_def strip_front_F0 strip_back_guard)

subsection \<open>Escaping and the two templates\<close>



declare escapeHtml.simps [simp del]


lemmas emoji_defs = emoji_target_def emoji_link_def emoji_red_def emoji_white_def emoji_blue_def

lemma trim_notification:
  "trim (LF @ priority_emoji p @ '' <b>'' @ t @ ''</b>'' @ LF @ LF @ m @ LF @ LF
          @ ''<i>'' @ d @ ''</i>'' @ LF @ ''  '')
   = priority_emoji p @ '' <b>'' @ t @ ''</b>'' @ LF @ LF @ m @ LF @ LF @ ''<i>'' @ d @ ''</i>''"
  by (simp add: priority_emoji_def emoji_defs trim_def trimStart_def trimEnd_def strip_front_F0 strip_front_E2 strip_back_gt)

lemma formatNotification_eq:
  "formatNotification P data =
     bind_e (getProp data ''priority'') (\<lambda>priority.
     bind_e (bind_e (getProp data ''title'')
               (\<lambda>t. escapeHtml P (or_else P t (Some (JStr ''Notification''))))) (\<lambda>title.
     bind_e (bind_e (getProp data ''message'') (escapeHtml P)) (\<lambda>message.
     bind_e (bind_e (getProp data ''timestamp'') (new_Date P)) (\<lambda>d.
       Inr (priority_emoji priority @ '' <b>'' @ title @ ''</b>'' @ LF @ LF @ message @ LF @ LF
            @ ''<i>'' @ toLocaleString P d @ ''</i>'')))))"
  by (simp only: formatNotification_def trim_notification)




lemma trim_mention:
  "trim (LF @ emoji_target @ '' <b>@claw Mention in Knobase</b>'' @ LF
          @ LF
          @ ''<b>From:</b> '' @ user @ LF
          @ ''<b>Channel:</b> '' @ channel @ LF
          @ ''<b>Time:</b> '' @ t @ LF
          @ LF
          @ ''<b>Message:</b>'' @ LF
          @ message @ LF
          @ LF
          @ ctx @ LF
          @ link @ LF
          @ ''  '')
   = emoji_target @ '' <b>@claw Mention in Knobase</b>'' @ LF
          @ LF
          @ ''<b>From:</b> '' @ user @ LF
          @ ''<b>Channel:</b> '' @ channel @ LF
          @ ''<b>Time:</b> '' @ t @ LF
          @ LF
          @ ''<b>Message:</b>''
          @ trimEnd (LF @ message @ LF @ LF @ ctx @ LF @ link @ LF @ ''  '')"
proof -
  have e: "LF @ emoji_target @ '' <b>@claw Mention in Knobase</b>'' @ LF
          @ LF
          @ ''<b>From:</b> '' @ user @ LF
          @ ''<b>Channel:</b> '' @ channel @ LF
          @ ''<b>Time:</b> '' @ t @ LF
          @ LF
          @ ''<b>Message:</b>'' @ LF
          @ message @ LF
          @ LF
          @ ctx @ LF
          @ link @ LF
          @ ''  ''
      = CHR 0x0A # CHR 0xF0 # ([CHR 0x9F, CHR 0x8E, CHR 0xAF]
          @ '' <b>@claw Mention in Knobase</b>'' @ LF
          @ LF
          @ ''<b>From:</b> '' @ user @ LF
          @ ''<b>Channel:</b> '' @ channel @ LF
          @ ''<b>Time:</b> '' @ t @ LF
          @ LF
          @ ''<b>Message:</b'') @ CHR ''>'' # (LF @ message @ LF @ LF @ ctx @ LF @ link @ LF @ ''  '')"
    by (simp add: emoji_target_def)
  show ?thesis
    unfolding e trim_guarded by (simp add: emoji_target_def)
qed

lemma formatMention_eq:
  "formatMention P data =
     bind_e (bind_e (getProp data ''user'') (escapeHtml P)) (\<lambda>user.
     bind_e (bind_e (getProp data ''channel'')
               (\<lambda>c. escapeHtml P (or_else P c (Some (JStr ''Unknown''))))) (\<lambda>channel.
     bind_e (bind_e (getProp data ''timestamp'') (new_Date P)) (\<lambda>d.
     bind_e (bind_e (getProp data ''message'') (escapeHtml P)) (\<lambda>message.
     bind_e (mention_context P data) (\<lambda>context.
     bind_e (mention_url P data) (\<lambda>link.
       Inr (emoji_target @ '' <b>@claw Mention in Knobase</b>'' @ LF
          @ LF
          @ ''<b>From:</b> '' @ user @ LF
          @ ''<b>Channel:</b> '' @ channel @ LF
          @ ''<b>Time:</b> '' @ toLocaleString P d @ LF
          @ LF
          @ ''<b>Message:</b>''
          @ trimEnd (LF @ message @ LF @ LF @ context @ LF @ link @ LF @ ''  ''))))))))"
  by (simp only: formatMention_def trim_mention)

subsection \<open>The digest\<close>

lemma length_sha256_round: "length (sha256_round s kw) = length s"
  by (cases "(s, kw)" rule: sha256_round.cases) (simp_all add: Let_def)

lemma length_foldl_round: "length (foldl sha256_round s kws) = length s"
  by (induction kws arbitrary: s) (simp_all add: length_sha256_round)

lemma length_compress: "length (compress hs block) = length hs"
  by (simp add: compress_def length_foldl_round)

lemma length_foldl_compress: "length (foldl compress hs bs) = length hs"
  by (induction bs arbitrary: hs) (simp_all add: length_compress)

lemma length_be_bytes: "length (concat (map be_bytes ws)) = 4 * length ws"
  by (induction ws) (simp_all add: be_bytes_def)

lemma length_sha256: "length (sha256 bs) = 32"
  by (simp add: sha256_def length_be_bytes length_foldl_compress sha256_H0_def)

lemma length_hex: "length (hex bs) = 2 * length bs"
  by (induction bs) (simp_all add: hex_def)

lemma length_createHmac: "length (createHmac_sha256_hex key msg) = 64"
  by (simp add: createHmac_sha256_hex_def length_hex hmac_sha256_def Let_def length_sha256)

text \<open>The second test case of RFC 4231.\<close>

lemma createHmac_test_case:
  "createHmac_sha256_hex ''Jefe'' ''what do ya want for nothing?''
     = ''5bdcc146bf60754e6a042426089575c75a003f089d2739839dec58b964ec3843''"
  by code_simp

lemma verifySignature_decoded:
  assumes "sg \<noteq> []" and "sk \<noteq> []"
  shows "verifySignature P (Some payload) (Some sg) (Some sk)
     = Inr (sg = createHmac_sha256_hex sk (JSON_stringify P payload))"
  using assms
  by (auto simp add: verifySignature_def hashed_message_def update_digest_def bind_e_def
      timingSafeEqual_def)

lemma verifySignature_wrong_length:
  assumes "sg \<noteq> []" and "sk \<noteq> []" and "length sg \<noteq> 64"
  shows "verifySignature P (Some payload) (Some sg) (Some sk) = Inr False"
  using assms length_createHmac [of sk "JSON_stringify P payload"]
  by (auto simp add: verifySignature_decoded)

lemma verifySignature_undefined:
  assumes "sg \<noteq> []" and "sk \<noteq> []"
  shows "verifySignature P None (Some sg) (Some sk) = Inl TypeError"
  using assms
  by (simp add: verifySignature_def hashed_message_def update_digest_def bind_e_def)

subsection \<open>The handler\<close>

lemma getProp_defined:
  assumes "getProp body k = Inr v"
  obtains w where "getProp body k' = Inr w"
proof (cases body)
  case None
  with assms show ?thesis by simp
next
  case (Some b)
  with assms that show ?thesis by (cases b) simp_all
qed

lemma handler_valid:
  assumes "verifySignature P body signature (config ''KNOBASE_WEBHOOK_SECRET'') = Inr True"
    and "getProp body ''event'' = Inr ev" and "getProp body ''data'' = Inr data"
    and "template_value P ev = Inr txt"
  shows "handler_try P config body signature
     = (case bind_io (dispatch P config ev txt data) (\<lambda>_.
               pure_io (Inr (Json_response 200 (JObj [(''success'', JBool True)])))) of
          (r, tr) \<Rightarrow>
            (r, Console_log (''['' @ Date_now_toISOString P @ ''] Received '' @ txt @ '' event'')
                  # tr))"
  by (simp add: handler_try_def assms bind_io_pure bind_io_log split: prod.splits)

lemma handler_try_Inr:
  assumes "handler_try P config body signature = (Inr r, tr)"
  shows "r = Json_response 401 (JObj [(''error'', JStr ''Invalid signature'')])
       \<or> r = Json_response 200 (JObj [(''success'', JBool True)])"
  using assms
  by (auto simp add: handler_try_def bind_io_def pure_io_def console_log_def
      split: sum.splits prod.splits if_splits)

lemma handler_three_responses:
  "fst (webhook_handler P config body signature)
     \<in> {Json_response 401 (JObj [(''error'', JStr ''Invalid signature'')]),
         Json_response 200 (JObj [(''success'', JBool True)]),
         Json_response 500 (JObj [(''error'', JStr ''Internal error'')])}"
proof (cases "handler_try P config body signature")
  case (Pair o' tr)
  show ?thesis
  proof (cases o')
    case (Inl e)
    with Pair show ?thesis by (simp add: webhook_handler_def)
  next
    case (Inr r)
    with Pair handler_try_Inr [of P config body signature r tr] show ?thesis
      by (auto simp add: webhook_handler_def)
  qed
qed

lemma handler_invalid:
  assumes "verifySignature P body signature (config ''KNOBASE_WEBHOOK_SECRET'') = Inr False"
  shows "webhook_handler P config body signature
    = (Json_response 401 (JObj [(''error'', JStr ''Invalid signature'')]),
       [Console_log ''Invalid webhook signature''])"
  by (simp add: webhook_handler_def handler_try_def assms io_simps)

lemma handler_verify_throws:
  assumes "verifySignature P body signature (config ''KNOBASE_WEBHOOK_SECRET'') = Inl e"
  shows "webhook_handler P config body signature
    = (Json_response 500 (JObj [(''error'', JStr ''Internal error'')]),
       [Console_error (''Webhook error: '' @ error_message P e)])"
  by (simp add: webhook_handler_def handler_try_def assms io_simps)

lemma handler_event_throws:
  assumes "verifySignature P body signature (config ''KNOBASE_WEBHOOK_SECRET'') = Inr True"
    and "getProp body ''event'' = Inl e"
  shows "webhook_handler P config body signature
    = (Json_response 500 (JObj [(''error'', JStr ''Internal error'')]),
       [Console_error (''Webhook error: '' @ error_message P e)])"
  by (simp add: webhook_handler_def handler_try_def assms io_simps)

lemma handler_text_throws:
  assumes "verifySignature P body signature (config ''KNOBASE_WEBHOOK_SECRET'') = Inr True"
    and "getProp body ''event'' = Inr ev" and "template_value P ev = Inl e"
  shows "webhook_handler P config body signature
    = (Json_response 500 (JObj [(''error'', JStr ''Internal error'')]),
       [Console_error (''Webhook error: '' @ error_message P e)])"
proof -
  from assms(2) obtain d where "getProp body ''data'' = Inr d"
    by (rule getProp_defined)
  then show ?thesis
    by (simp add: webhook_handler_def handler_try_def assms io_simps)
qed

lemma dispatch_mention:
  "classify ev = Mention \<Longrightarrow> dispatch P config ev txt data
     = bind_io (pure_io (formatMention P data)) (\<lambda>message.
          bind_io (sendTelegram P config message) (\<lambda>_.
            console_log (check_mark @ '' Mention notification sent'')))"
  by (simp add: dispatch_def)

lemma dispatch_notification:
  "classify ev = Notification \<Longrightarrow> dispatch P config ev txt data
     = bind_io (pure_io (formatNotification P data)) (\<lambda>message.
          bind_io (sendTelegram P config message) (\<lambda>_.
            console_log (check_mark @ '' Notification sent'')))"
  by (simp add: dispatch_def)

lemma dispatch_system:
  "classify ev = System \<Longrightarrow> dispatch P config ev txt data
     = bind_io (pure_io (bind_e (getProp data ''event'') (join_value P))) (\<lambda>s.
            console_log (''System event: '' @ s))"
  by (simp add: dispatch_def)

lemma dispatch_unknown:
  "classify ev = Unknown \<Longrightarrow> dispatch P config ev txt data
     = console_log (''Unknown event type: '' @ txt)"
  by (simp add: dispatch_def)

lemma classify_other:
  "s \<notin> {''mention'', ''notification'', ''system''} \<Longrightarrow> classify (Some (JStr s)) = Unknown"
  by (simp add: classify_def)

lemma example_secret:"example_config ''KNOBASE_WEBHOOK_SECRET'' = Some ''s3cret''"
  by (simp add: example_config_def)

section \<open>The signature verifier\<close>

text \<open>
  Claim C1, as amended. With a secret and a header, the verifier does not look at the
  bytes of the body: the message it hashes is \<^verbatim>\<open>JSON.stringify\<close> of the decoded body,
  and it accepts exactly when the header is the HMAC-SHA256 digest of that text under the
  secret. Two requests that the body parser decodes alike and that carry the same header
  get the same answer, whatever their bytes.
\<close>

theorem verifier_hashes_reserialized_body:
  "hashed_message P (Some payload) = Some (JSON_stringify P payload)
   \<and> (sg \<noteq> [] \<and> sk \<noteq> []
      \<longrightarrow> verifySignature P (Some payload) (Some sg) (Some sk)
            = Inr (sg = createHmac_sha256_hex sk (JSON_stringify P payload)))
   \<and> (express_json P req = express_json P req'
        \<and> headers req ''x-knobase-signature'' = headers req' ''x-knobase-signature''
      \<longrightarrow> knobase_endpoint P config req = knobase_endpoint P config req')"
  by (auto simp add: verifySignature_decoded hashed_message_def knobase_endpoint_def
      split: parsed.splits)

text \<open>
  An instance of C1: the event of unknown kind, written with and without a space after
  the colon, under the secret \<^verbatim>\<open>s3cret\<close>. Both texts decode to the same object, the
  message hashed is the text without the space, and the digest of that text is accepted.
\<close>

theorem verifier_hashes_reserialized_body_witness:
  "(ping_compact_digest \<noteq> [] \<and> ''s3cret'' \<noteq> [])
   \<and> express_json example_platform (post ''application/json'' ping_spaced (Some ping_compact_digest))
       = express_json example_platform
           (post ''application/json'' ping_compact (Some ping_compact_digest))
   \<and> headers (post ''application/json'' ping_spaced (Some ping_compact_digest))
         ''x-knobase-signature''
       = headers (post ''application/json'' ping_compact (Some ping_compact_digest))
           ''x-knobase-signature''
   \<and> hashed_message example_platform (Some ping) = Some ping_compact
   \<and> createHmac_sha256_hex ''s3cret'' ping_compact = ping_compact_digest
   \<and> verifySignature example_platform (Some ping) (Some ping_compact_digest) (Some ''s3cret'')
       = Inr True
   \<and> knobase_endpoint example_platform example_config
         (post ''application/json'' ping_spaced (Some ping_compact_digest))
       = knobase_endpoint example_platform example_config
           (post ''application/json'' ping_compact (Some ping_compact_digest))"
proof -
  have n: "ping_compact_digest \<noteq> [] \<and> ''s3cret'' \<noteq> []"
    by code_simp
  have p: "express_json example_platform
             (post ''application/json'' ping_spaced (Some ping_compact_digest))
       = express_json example_platform
           (post ''application/json'' ping_compact (Some ping_compact_digest))"
    by code_simp
  have h: "headers (post ''application/json'' ping_spaced (Some ping_compact_digest))
         ''x-knobase-signature''
       = headers (post ''application/json'' ping_compact (Some ping_compact_digest))
           ''x-knobase-signature''"
    by code_simp
  have j: "JSON_stringify example_platform ping = ping_compact"
    by code_simp
  have d: "createHmac_sha256_hex ''s3cret'' ping_compact = ping_compact_digest"
    by code_simp
  note t = verifier_hashes_reserialized_body
      [where P = example_platform and payload = ping and sg = ping_compact_digest
         and sk = "''s3cret''" and config = example_config
         and req = "post ''application/json'' ping_spaced (Some ping_compact_digest)"
         and req' = "post ''application/json'' ping_compact (Some ping_compact_digest)"]
  from t have m: "hashed_message example_platform (Some ping) = Some ping_compact"
    unfolding j by blast
  from t n have "verifySignature example_platform (Some ping) (Some ping_compact_digest)
        (Some ''s3cret'')
      = Inr (ping_compact_digest = createHmac_sha256_hex ''s3cret'' ping_compact)"
    unfolding j by blast
  then have v: "verifySignature example_platform (Some ping) (Some ping_compact_digest)
        (Some ''s3cret'') = Inr True"
    unfolding d by simp
  from t p h have e: "knobase_endpoint example_platform example_config
         (post ''application/json'' ping_spaced (Some ping_compact_digest))
       = knobase_endpoint example_platform example_config
           (post ''application/json'' ping_compact (Some ping_compact_digest))"
    by blast
  from n p h m d v e show ?thesis
    by blast
qed

text \<open>
  Claim C1 as stated fails. A sender that signs the bytes it sends, here the text with
  the space, is refused: the header is the digest of the raw bytes of the body, and the
  answer is 401.
\<close>

theorem raw_bytes_counterexample:
  "createHmac_sha256_hex ''s3cret'' ping_spaced = ping_spaced_digest
   \<and> knobase_endpoint example_platform example_config
         (post ''application/json'' ping_spaced (Some ping_spaced_digest))
       = (Json_response 401 (JObj [(''error'', JStr ''Invalid signature'')]),
          [Console_log ''Invalid webhook signature''])"
  by code_simp

text \<open>
  Claim C3. Whatever the body, when the configured secret is absent or the signature
  header is absent, the verifier returns true: the check is skipped. An empty string
  counts as absent.
\<close>

theorem verifySignature_skipped:
  "verifySignature P payload None secret = Inr True
   \<and> verifySignature P payload signature None = Inr True
   \<and> verifySignature P payload (Some []) secret = Inr True
   \<and> verifySignature P payload signature (Some []) = Inr True"
  by (simp add: verifySignature_def split: option.splits)

text \<open>
  Claim C8, as amended. On a body that the parser has decoded the verifier never throws.
  With a header and a secret it returns whether the header is, byte for byte, the digest
  of the re-serialized body: no header is decoded, and every header that differs from
  the digest gives false. In particular the digest has 64 characters, and for a header
  of another length \<^verbatim>\<open>timingSafeEqual\<close> throws, the verifier catches it and returns
  false. When \<^verbatim>\<open>req.body\<close> is \<^verbatim>\<open>undefined\<close> the digest cannot be computed: the error is
  thrown before the \<^verbatim>\<open>try\<close> block and leaves the verifier.
\<close>

theorem verifySignature_raises_only_without_body:
  "(\<exists>b. verifySignature P (Some payload) signature secret = Inr b)
   \<and> (sg \<noteq> [] \<and> sk \<noteq> []
      \<longrightarrow> verifySignature P (Some payload) (Some sg) (Some sk)
            = Inr (sg = createHmac_sha256_hex sk (JSON_stringify P payload))
          \<and> (length sg \<noteq> 64
             \<longrightarrow> timingSafeEqual sg (createHmac_sha256_hex sk (JSON_stringify P payload))
                   = Inl RangeError
                 \<and> verifySignature P (Some payload) (Some sg) (Some sk) = Inr False)
          \<and> verifySignature P None (Some sg) (Some sk) = Inl TypeError)"
proof (intro conjI impI)
  show "\<exists>b. verifySignature P (Some payload) signature secret = Inr b"
    by (auto simp add: verifySignature_def hashed_message_def update_digest_def bind_e_def
        split: option.splits sum.splits)
next
  assume a: "sg \<noteq> [] \<and> sk \<noteq> []"
  then show "verifySignature P (Some payload) (Some sg) (Some sk)
            = Inr (sg = createHmac_sha256_hex sk (JSON_stringify P payload))"
    by (simp add: verifySignature_decoded)
  from a show "verifySignature P None (Some sg) (Some sk) = Inl TypeError"
    by (simp add: verifySignature_undefined)
  assume l: "length sg \<noteq> 64"
  then show "timingSafeEqual sg (createHmac_sha256_hex sk (JSON_stringify P payload))
                   = Inl RangeError"
    by (simp add: timingSafeEqual_def length_createHmac)
  from a l show "verifySignature P (Some payload) (Some sg) (Some sk) = Inr False"
    by (simp add: verifySignature_wrong_length)
qed

text \<open>
  Instances of C8 under the secret \<^verbatim>\<open>s3cret\<close>: the header \<^verbatim>\<open>abc\<close> on the empty object
  is refused through the caught error, and a header of 64 characters that is not the
  digest of the re-serialized body is refused by the comparison.
\<close>

theorem verifySignature_raises_only_without_body_witness:
  "(''abc'' \<noteq> [] \<and> ''s3cret'' \<noteq> [] \<and> length ''abc'' \<noteq> 64)
   \<and> timingSafeEqual ''abc''
         (createHmac_sha256_hex ''s3cret'' (JSON_stringify example_platform (JObj [])))
       = Inl RangeError
   \<and> verifySignature example_platform (Some (JObj [])) (Some ''abc'') (Some ''s3cret'')
       = Inr False
   \<and> verifySignature example_platform None (Some ''abc'') (Some ''s3cret'') = Inl TypeError
   \<and> (ping_spaced_digest \<noteq> [] \<and> length ping_spaced_digest = 64)
   \<and> verifySignature example_platform (Some ping) (Some ping_spaced_digest) (Some ''s3cret'')
       = Inr False"
proof -
  have n: "''abc'' \<noteq> [] \<and> ''s3cret'' \<noteq> [] \<and> length ''abc'' \<noteq> 64"
    by simp
  note t = verifySignature_raises_only_without_body
      [where P = example_platform and payload = "JObj []" and sg = "''abc''"
         and sk = "''s3cret''"]
  from t n have r: "timingSafeEqual ''abc''
         (createHmac_sha256_hex ''s3cret'' (JSON_stringify example_platform (JObj [])))
       = Inl RangeError"
    by blast
  from t n have f: "verifySignature example_platform (Some (JObj [])) (Some ''abc'')
        (Some ''s3cret'') = Inr False"
    by blast
  from t n have u: "verifySignature example_platform None (Some ''abc'') (Some ''s3cret'')
      = Inl TypeError"
    by blast
  have n': "ping_spaced_digest \<noteq> [] \<and> length ping_spaced_digest = 64"
    by (simp add: ping_spaced_digest_def)
  have d: "(ping_spaced_digest
        = createHmac_sha256_hex ''s3cret'' (JSON_stringify example_platform ping)) = False"
    by code_simp
  note t' = verifySignature_raises_only_without_body
      [where P = example_platform and payload = ping and sg = ping_spaced_digest
         and sk = "''s3cret''"]
  from t' n n' have "verifySignature example_platform (Some ping) (Some ping_spaced_digest)
        (Some ''s3cret'')
      = Inr (ping_spaced_digest
              = createHmac_sha256_hex ''s3cret'' (JSON_stringify example_platform ping))"
    by blast
  then have g: "verifySignature example_platform (Some ping) (Some ping_spaced_digest)
        (Some ''s3cret'') = Inr False"
    unfolding d .
  from n r f u n' g show ?thesis
    by blast
qed

text \<open>
  Claim C8 as stated fails. Express 5 leaves \<^verbatim>\<open>req.body\<close> undefined for a request whose
  body is not of the JSON media type; with a signature header and a configured secret
  the verifier then throws, and the handler answers 500.
\<close>

theorem undefined_body_counterexample:
  "express_json example_platform (post ''text/plain'' ping_compact (Some ''abc'')) = Parsed None
   \<and> verifySignature example_platform None (Some ''abc'') (Some ''s3cret'') = Inl TypeError
   \<and> fst (knobase_endpoint example_platform example_config
             (post ''text/plain'' ping_compact (Some ''abc'')))
       = Json_response 500 (JObj [(''error'', JStr ''Internal error'')])"
  by code_simp

section \<open>The formatter\<close>




text \<open>
  Claim C5, as amended. A timestamp string that \<^verbatim>\<open>Date\<close> cannot parse does not make
  formatting fail: the time is rendered as the fixed text \<^verbatim>\<open>Invalid Date\<close>, in a
  notification and in a mention, whenever the other fields can be formatted.
\<close>

theorem unparsable_timestamp_renders_Invalid_Date:
  assumes "getProp data ''timestamp'' = Inr (Some (JStr ts))" and "Date_parse P ts = None"
  shows
    "bind_e (bind_e (getProp data ''timestamp'') (new_Date P)) (\<lambda>d. Inr (toLocaleString P d))
       = Inr ''Invalid Date''
     \<and> (getProp data ''priority'' = Inr p
          \<and> bind_e (getProp data ''title'')
               (\<lambda>t. escapeHtml P (or_else P t (Some (JStr ''Notification'')))) = Inr title
          \<and> bind_e (getProp data ''message'') (escapeHtml P) = Inr message
        \<longrightarrow> formatNotification P data
              = Inr (priority_emoji p @ '' <b>'' @ title @ ''</b>'' @ LF @ LF @ message @ LF @ LF
                     @ ''<i>Invalid Date</i>''))
     \<and> (bind_e (getProp data ''user'') (escapeHtml P) = Inr user
          \<and> bind_e (getProp data ''channel'')
               (\<lambda>c. escapeHtml P (or_else P c (Some (JStr ''Unknown'')))) = Inr channel
          \<and> bind_e (getProp data ''message'') (escapeHtml P) = Inr message
          \<and> mention_context P data = Inr ctx
          \<and> mention_url P data = Inr link
        \<longrightarrow> formatMention P data
              = Inr (emoji_target @ '' <b>@claw Mention in Knobase</b>'' @ LF
                     @ LF
                     @ ''<b>From:</b> '' @ user @ LF
                     @ ''<b>Channel:</b> '' @ channel @ LF
                     @ ''<b>Time:</b> Invalid Date'' @ LF
                     @ LF
                     @ ''<b>Message:</b>''
                     @ trimEnd (LF @ message @ LF @ LF @ ctx @ LF @ link @ LF @ ''  '')))"
proof -
  have d: "bind_e (getProp data ''timestamp'') (new_Date P) = Inr None"
    using assms by (simp add: bind_e_simps)
  have inv: "toLocaleString P None = ''Invalid Date''"
    by (simp add: toLocaleString_def)
  show ?thesis
  proof (intro conjI impI)
    show "bind_e (bind_e (getProp data ''timestamp'') (new_Date P)) (\<lambda>d. Inr (toLocaleString P d))
       = Inr ''Invalid Date''"
      by (simp only: d bind_e_simps inv)
  next
    assume "getProp data ''priority'' = Inr p
          \<and> bind_e (getProp data ''title'')
               (\<lambda>t. escapeHtml P (or_else P t (Some (JStr ''Notification'')))) = Inr title
          \<and> bind_e (getProp data ''message'') (escapeHtml P) = Inr message"
    then show "formatNotification P data
              = Inr (priority_emoji p @ '' <b>'' @ title @ ''</b>'' @ LF @ LF @ message @ LF @ LF
                     @ ''<i>Invalid Date</i>'')"
      by (simp add: formatNotification_eq d bind_e_simps inv)
  next
    assume "bind_e (getProp data ''user'') (escapeHtml P) = Inr user
          \<and> bind_e (getProp data ''channel'')
               (\<lambda>c. escapeHtml P (or_else P c (Some (JStr ''Unknown'')))) = Inr channel
          \<and> bind_e (getProp data ''message'') (escapeHtml P) = Inr message
          \<and> mention_context P data = Inr ctx
          \<and> mention_url P data = Inr link"
    then show "formatMention P data
              = Inr (emoji_target @ '' <b>@claw Mention in Knobase</b>'' @ LF
                     @ LF
                     @ ''<b>From:</b> '' @ user @ LF
                     @ ''<b>Channel:</b> '' @ channel @ LF
                     @ ''<b>Time:</b> Invalid Date'' @ LF
                     @ LF
                     @ ''<b>Message:</b>''
                     @ trimEnd (LF @ message @ LF @ LF @ ctx @ LF @ link @ LF @ ''  ''))"
      by (simp add: formatMention_eq d bind_e_simps inv)
  qed
qed

text \<open>An instance of C5: the timestamp \<^verbatim>\<open>yesterday\<close>.\<close>

theorem unparsable_timestamp_renders_Invalid_Date_witness:
  "(getProp (Some (JObj stale_fields)) ''timestamp'' = Inr (Some (JStr ''yesterday''))
      \<and> Date_parse example_platform ''yesterday'' = None)
   \<and> (getProp (Some (JObj stale_fields)) ''priority'' = Inr None
      \<and> bind_e (getProp (Some (JObj stale_fields)) ''title'')
           (\<lambda>t. escapeHtml example_platform (or_else example_platform t (Some (JStr ''Notification''))))
         = Inr ''Notification''
      \<and> bind_e (getProp (Some (JObj stale_fields)) ''message'') (escapeHtml example_platform)
         = Inr ''deploy done'')
   \<and> (bind_e (getProp (Some (JObj stale_fields)) ''user'') (escapeHtml example_platform) = Inr ''bob''
      \<and> bind_e (getProp (Some (JObj stale_fields)) ''channel'')
           (\<lambda>c. escapeHtml example_platform (or_else example_platform c (Some (JStr ''Unknown''))))
         = Inr ''Unknown''
      \<and> bind_e (getProp (Some (JObj stale_fields)) ''message'') (escapeHtml example_platform)
         = Inr ''deploy done''
      \<and> mention_context example_platform (Some (JObj stale_fields)) = Inr []
      \<and> mention_url example_platform (Some (JObj stale_fields)) = Inr [])
   \<and> bind_e (bind_e (getProp (Some (JObj stale_fields)) ''timestamp'') (new_Date example_platform))
         (\<lambda>d. Inr (toLocaleString example_platform d))
       = Inr ''Invalid Date''
   \<and> formatNotification example_platform (Some (JObj stale_fields)) = Inr stale_notification
   \<and> formatMention example_platform (Some (JObj stale_fields)) = Inr stale_mention"
proof -
  have h0: "getProp (Some (JObj stale_fields)) ''timestamp'' = Inr (Some (JStr ''yesterday''))"
    by code_simp
  have h0': "Date_parse example_platform ''yesterday'' = None"
    by code_simp
  have h1: "getProp (Some (JObj stale_fields)) ''priority'' = Inr None
      \<and> bind_e (getProp (Some (JObj stale_fields)) ''title'')
           (\<lambda>t. escapeHtml example_platform (or_else example_platform t (Some (JStr ''Notification''))))
         = Inr ''Notification''
      \<and> bind_e (getProp (Some (JObj stale_fields)) ''message'') (escapeHtml example_platform)
         = Inr ''deploy done''"
    by code_simp
  have h2: "bind_e (getProp (Some (JObj stale_fields)) ''user'') (escapeHtml example_platform) = Inr ''bob''
      \<and> bind_e (getProp (Some (JObj stale_fields)) ''channel'')
           (\<lambda>c. escapeHtml example_platform (or_else example_platform c (Some (JStr ''Unknown''))))
         = Inr ''Unknown''
      \<and> bind_e (getProp (Some (JObj stale_fields)) ''message'') (escapeHtml example_platform)
         = Inr ''deploy done''
      \<and> mention_context example_platform (Some (JObj stale_fields)) = Inr []
      \<and> mention_url example_platform (Some (JObj stale_fields)) = Inr []"
    by code_simp
  note t = unparsable_timestamp_renders_Invalid_Date
      [OF h0 h0', where p = None and title = "''Notification''" and message = "''deploy done''"
         and user = "''bob''" and channel = "''Unknown''" and ctx = "[]" and link = "[]"]
  have n: "priority_emoji (None :: example_number json option) @ '' <b>'' @ ''Notification''
             @ ''</b>'' @ LF @ LF
             @ ''deploy done'' @ LF @ LF @ ''<i>Invalid Date</i>''
       = stale_notification"
    by code_simp
  have m: "emoji_target @ '' <b>@claw Mention in Knobase</b>'' @ LF
                     @ LF
                     @ ''<b>From:</b> '' @ ''bob'' @ LF
                     @ ''<b>Channel:</b> '' @ ''Unknown'' @ LF
                     @ ''<b>Time:</b> Invalid Date'' @ LF
                     @ LF
                     @ ''<b>Message:</b>''
                     @ trimEnd (LF @ ''deploy done'' @ LF @ LF @ [] @ LF @ [] @ LF @ ''  '')
       = stale_mention"
    by code_simp
  from t have i: "bind_e (bind_e (getProp (Some (JObj stale_fields)) ''timestamp'')
           (new_Date example_platform))
         (\<lambda>d. Inr (toLocaleString example_platform d))
       = Inr ''Invalid Date''"
    by blast
  from t h1 have fn: "formatNotification example_platform (Some (JObj stale_fields))
      = Inr stale_notification"
    unfolding n by blast
  from t h2 have fm: "formatMention example_platform (Some (JObj stale_fields))
      = Inr stale_mention"
    unfolding m by blast
  from h0 h0' h1 h2 i fn fm show ?thesis
    by blast
qed

text \<open>
  Claim C5 as stated fails: the raw string of the timestamp is not in the output, in a
  notification and in a mention.
\<close>

theorem raw_timestamp_counterexample:
  "getProp (Some (JObj stale_fields)) ''timestamp'' = Inr (Some (JStr ''yesterday''))
   \<and> Date_parse example_platform ''yesterday'' = None
   \<and> formatNotification example_platform (Some (JObj stale_fields)) = Inr stale_notification
   \<and> \<not> str_includes stale_notification ''yesterday''
   \<and> str_includes stale_notification ''Invalid Date''
   \<and> formatMention example_platform (Some (JObj stale_fields)) = Inr stale_mention
   \<and> \<not> str_includes stale_mention ''yesterday''
   \<and> str_includes stale_mention ''Invalid Date''"
  by code_simp

text \<open>
  Claim C9. The formatter is a function of the data it is given (for a process with its
  locale and time zone): the output, or the error, is determined by the values of the
  fields the template reads, so two evaluations on the same data agree.
\<close>

theorem format_depends_only_on_fields:
  "((\<forall>k \<in> set [''user'', ''channel'', ''timestamp'', ''message'', ''context'', ''url''].
        getProp d1 k = getProp d2 k)
      \<longrightarrow> formatMention P d1 = formatMention P d2)
   \<and> ((\<forall>k \<in> set [''priority'', ''title'', ''message'', ''timestamp''].
        getProp d1 k = getProp d2 k)
      \<longrightarrow> formatNotification P d1 = formatNotification P d2)"
  by (simp add: formatMention_def formatNotification_def mention_context_def mention_url_def)

text \<open>
  An instance of C9: the same fields in another order, with one more that the templates
  do not read.
\<close>

theorem format_depends_only_on_fields_witness:
  "list_all (\<lambda>k. getProp (Some (JObj full_fields)) k
                  = getProp (Some (JObj (rev full_fields @ [(''extra'', JNull)]))) k)
      [''user'', ''channel'', ''timestamp'', ''message'', ''context'', ''url'', ''priority'',
       ''title'']
   \<and> formatMention example_platform (Some (JObj full_fields))
       = formatMention example_platform (Some (JObj (rev full_fields @ [(''extra'', JNull)])))
   \<and> formatNotification example_platform (Some (JObj full_fields))
       = formatNotification example_platform (Some (JObj (rev full_fields @ [(''extra'', JNull)])))
   \<and> formatMention example_platform (Some (JObj full_fields)) = Inr full_mention_message"
proof -
  have a: "list_all (\<lambda>k. getProp (Some (JObj full_fields)) k
                  = getProp (Some (JObj (rev full_fields @ [(''extra'', JNull)]))) k)
      [''user'', ''channel'', ''timestamp'', ''message'', ''context'', ''url'', ''priority'',
       ''title'']"
    by code_simp
  then have h: "(\<forall>k \<in> set [''user'', ''channel'', ''timestamp'', ''message'', ''context'', ''url''].
        getProp (Some (JObj full_fields)) k
          = getProp (Some (JObj (rev full_fields @ [(''extra'', JNull)]))) k)
   \<and> (\<forall>k \<in> set [''priority'', ''title'', ''message'', ''timestamp''].
        getProp (Some (JObj full_fields)) k
          = getProp (Some (JObj (rev full_fields @ [(''extra'', JNull)]))) k)"
    by simp
  have v: "formatMention example_platform (Some (JObj full_fields)) = Inr full_mention_message"
    by code_simp
  from h format_depends_only_on_fields
      [where P = example_platform and ?d1.0 = "Some (JObj full_fields)"
         and ?d2.0 = "Some (JObj (rev full_fields @ [(''extra'', JNull)]))"]
  have "formatMention example_platform (Some (JObj full_fields))
       = formatMention example_platform (Some (JObj (rev full_fields @ [(''extra'', JNull)])))
   \<and> formatNotification example_platform (Some (JObj full_fields))
       = formatNotification example_platform (Some (JObj (rev full_fields @ [(''extra'', JNull)])))"
    by blast
  with a v show ?thesis
    by blast
qed




section \<open>Delivery\<close>

text \<open>
  Claim C7. \<^verbatim>\<open>sendTelegram\<close> never throws and returns nothing. Without a bot token or
  without a chat id it sends no request and prints that it skips. Otherwise it sends one
  request; a rejected \<^verbatim>\<open>fetch\<close>, a response that is not ok, or a body that cannot be
  read is printed on the error stream and nothing more happens.
\<close>

theorem sendTelegram_swallows_failures:
  "fst (sendTelegram P config message) = Inr ()
   \<and> (config ''TELEGRAM_BOT_TOKEN'' = None \<or> config ''TELEGRAM_BOT_TOKEN'' = Some []
        \<or> config ''TELEGRAM_CHAT_ID'' = None \<or> config ''TELEGRAM_CHAT_ID'' = Some []
      \<longrightarrow> sendTelegram P config message
            = (Inr (), [Console_log ''Telegram not configured, skipping notification'']))
   \<and> (config ''TELEGRAM_BOT_TOKEN'' = Some token \<and> token \<noteq> []
        \<and> config ''TELEGRAM_CHAT_ID'' = Some chat \<and> chat \<noteq> []
      \<longrightarrow> (fetch P (telegram_url token) (telegram_body P chat message) = Rejected m
            \<longrightarrow> sendTelegram P config message
                  = (Inr (), [Fetch (telegram_url token) (telegram_body P chat message),
                              Console_error (''Telegram error: '' @ m)]))
          \<and> (fetch P (telegram_url token) (telegram_body P chat message)
                = Responded False (Inr answer)
            \<longrightarrow> sendTelegram P config message
                  = (Inr (), [Fetch (telegram_url token) (telegram_body P chat message),
                              Console_error (''Failed to send Telegram message: '' @ answer)]))
          \<and> (fetch P (telegram_url token) (telegram_body P chat message)
                = Responded False (Inl m)
            \<longrightarrow> sendTelegram P config message
                  = (Inr (), [Fetch (telegram_url token) (telegram_body P chat message),
                              Console_error (''Telegram error: '' @ m)]))
          \<and> (fetch P (telegram_url token) (telegram_body P chat message) = Responded True t
            \<longrightarrow> sendTelegram P config message
                  = (Inr (), [Fetch (telegram_url token) (telegram_body P chat message)])))"
  by (auto simp add: sendTelegram_def console_log_def Let_def
      split: option.splits fetch_result.splits sum.splits)

text \<open>
  Instances of C7: no bot token; then, with the credentials of the example, a network
  that is down, a response with an error status, a response that cannot be read, and a
  response that is ok.
\<close>

theorem sendTelegram_swallows_failures_witness:
  "config_without_telegram ''TELEGRAM_BOT_TOKEN'' = None
   \<and> sendTelegram example_platform config_without_telegram ''hello''
       = (Inr (), [Console_log ''Telegram not configured, skipping notification''])
   \<and> (example_config ''TELEGRAM_BOT_TOKEN'' = Some ''123:abc'' \<and> ''123:abc'' \<noteq> []
        \<and> example_config ''TELEGRAM_CHAT_ID'' = Some ''42'' \<and> ''42'' \<noteq> [])
   \<and> fetch offline_platform (telegram_url ''123:abc'') (telegram_body offline_platform ''42'' ''hello'')
       = Rejected ''fetch failed''
   \<and> sendTelegram offline_platform example_config ''hello''
       = (Inr (), [Fetch (telegram_url ''123:abc'') (telegram_body offline_platform ''42'' ''hello''),
                   Console_error (''Telegram error: '' @ ''fetch failed'')])
   \<and> fetch refusing_platform (telegram_url ''123:abc'')
         (telegram_body refusing_platform ''42'' ''hello'')
       = Responded False (Inr ''Bad Request'')
   \<and> sendTelegram refusing_platform example_config ''hello''
       = (Inr (), [Fetch (telegram_url ''123:abc'') (telegram_body refusing_platform ''42'' ''hello''),
                   Console_error (''Failed to send Telegram message: '' @ ''Bad Request'')])
   \<and> fetch unreadable_platform (telegram_url ''123:abc'')
         (telegram_body unreadable_platform ''42'' ''hello'')
       = Responded False (Inl ''terminated'')
   \<and> sendTelegram unreadable_platform example_config ''hello''
       = (Inr (), [Fetch (telegram_url ''123:abc'')
                     (telegram_body unreadable_platform ''42'' ''hello''),
                   Console_error (''Telegram error: '' @ ''terminated'')])
   \<and> fetch example_platform (telegram_url ''123:abc'')
         (telegram_body example_platform ''42'' ''hello'')
       = Responded True (Inr ''{}'')
   \<and> sendTelegram example_platform example_config ''hello''
       = (Inr (), [Fetch (telegram_url ''123:abc'') (telegram_body example_platform ''42'' ''hello'')])
   \<and> fst (sendTelegram offline_platform example_config ''hello'') = Inr ()"
proof -
  have a: "config_without_telegram ''TELEGRAM_BOT_TOKEN'' = None"
    by code_simp
  have c: "example_config ''TELEGRAM_BOT_TOKEN'' = Some ''123:abc'' \<and> ''123:abc'' \<noteq> []
        \<and> example_config ''TELEGRAM_CHAT_ID'' = Some ''42'' \<and> ''42'' \<noteq> []"
    by code_simp
  have f1: "fetch offline_platform (telegram_url ''123:abc'')
         (telegram_body offline_platform ''42'' ''hello'')
       = Rejected ''fetch failed''"
    by code_simp
  have f2: "fetch refusing_platform (telegram_url ''123:abc'')
         (telegram_body refusing_platform ''42'' ''hello'')
       = Responded False (Inr ''Bad Request'')"
    by code_simp
  have f3: "fetch unreadable_platform (telegram_url ''123:abc'')
         (telegram_body unreadable_platform ''42'' ''hello'')
       = Responded False (Inl ''terminated'')"
    by code_simp
  have f4: "fetch example_platform (telegram_url ''123:abc'')
         (telegram_body example_platform ''42'' ''hello'')
       = Responded True (Inr ''{}'')"
    by code_simp
  from a sendTelegram_swallows_failures
      [where P = example_platform and config = config_without_telegram and message = "''hello''"]
  have r0: "sendTelegram example_platform config_without_telegram ''hello''
       = (Inr (), [Console_log ''Telegram not configured, skipping notification''])"
    by blast
  from c f1 sendTelegram_swallows_failures
      [where P = offline_platform and config = example_config and message = "''hello''"
         and token = "''123:abc''" and chat = "''42''" and m = "''fetch failed''"]
  have r1: "sendTelegram offline_platform example_config ''hello''
       = (Inr (), [Fetch (telegram_url ''123:abc'') (telegram_body offline_platform ''42'' ''hello''),
                   Console_error (''Telegram error: '' @ ''fetch failed'')])"
    and r5: "fst (sendTelegram offline_platform example_config ''hello'') = Inr ()"
    by blast+
  from c f2 sendTelegram_swallows_failures
      [where P = refusing_platform and config = example_config and message = "''hello''"
         and token = "''123:abc''" and chat = "''42''" and answer = "''Bad Request''"]
  have r2: "sendTelegram refusing_platform example_config ''hello''
       = (Inr (), [Fetch (telegram_url ''123:abc'') (telegram_body refusing_platform ''42'' ''hello''),
                   Console_error (''Failed to send Telegram message: '' @ ''Bad Request'')])"
    by blast
  from c f3 sendTelegram_swallows_failures
      [where P = unreadable_platform and config = example_config and message = "''hello''"
         and token = "''123:abc''" and chat = "''42''" and m = "''terminated''"]
  have r3: "sendTelegram unreadable_platform example_config ''hello''
       = (Inr (), [Fetch (telegram_url ''123:abc'')
                     (telegram_body unreadable_platform ''42'' ''hello''),
                   Console_error (''Telegram error: '' @ ''terminated'')])"
    by blast
  from c f4 sendTelegram_swallows_failures
      [where P = example_platform and config = example_config and message = "''hello''"
         and token = "''123:abc''" and chat = "''42''" and t = "Inr ''{}''"]
  have r4: "sendTelegram example_platform example_config ''hello''
       = (Inr (), [Fetch (telegram_url ''123:abc'') (telegram_body example_platform ''42'' ''hello'')])"
    by blast
  from a r0 c f1 r1 f2 r2 f3 r3 f4 r4 r5 show ?thesis
    by blast
qed

section \<open>The endpoint\<close>

text \<open>
  Claim C2, as amended. The handler answers every call with one of three responses. A
  failed verification gives 401 and nothing but a log line. When the body has been read
  and the event handled (a message formatted and handed to the delivery, whatever the
  delivery did; a system event printed; an event of unknown kind printed) the answer is
  200. An error thrown by the verification, while reading the decoded body, rendering
  the event kind or formatting gives 500 and is printed; nothing is thrown further. A
  body that the body parser refuses never reaches the handler: the answer is the error
  page of Express with the status of the parser's error, which is 400 and not 500 for a
  text that is not JSON.
\<close>

theorem webhook_responses:
  "fst (webhook_handler P config body signature)
     \<in> {Json_response 401 (JObj [(''error'', JStr ''Invalid signature'')]),
         Json_response 200 (JObj [(''success'', JBool True)]),
         Json_response 500 (JObj [(''error'', JStr ''Internal error'')])}
   \<and> (verifySignature P body signature (config ''KNOBASE_WEBHOOK_SECRET'') = Inr False
      \<longrightarrow> webhook_handler P config body signature
            = (Json_response 401 (JObj [(''error'', JStr ''Invalid signature'')]),
               [Console_log ''Invalid webhook signature'']))
   \<and> (verifySignature P body signature (config ''KNOBASE_WEBHOOK_SECRET'') = Inl e
      \<longrightarrow> webhook_handler P config body signature
            = (Json_response 500 (JObj [(''error'', JStr ''Internal error'')]),
               [Console_error (''Webhook error: '' @ error_message P e)]))
   \<and> (verifySignature P body signature (config ''KNOBASE_WEBHOOK_SECRET'') = Inr True
        \<and> getProp body ''event'' = Inr ev \<and> getProp body ''data'' = Inr data
        \<and> template_value P ev = Inr kind
      \<longrightarrow> (classify ev = Mention \<and> formatMention P data = Inr msg
            \<longrightarrow> webhook_handler P config body signature
                  = (Json_response 200 (JObj [(''success'', JBool True)]),
                     Console_log (''['' @ Date_now_toISOString P @ ''] Received '' @ kind @ '' event'')
                       # snd (sendTelegram P config msg)
                       @ [Console_log (check_mark @ '' Mention notification sent'')]))
          \<and> (classify ev = Notification \<and> formatNotification P data = Inr msg
            \<longrightarrow> webhook_handler P config body signature
                  = (Json_response 200 (JObj [(''success'', JBool True)]),
                     Console_log (''['' @ Date_now_toISOString P @ ''] Received '' @ kind @ '' event'')
                       # snd (sendTelegram P config msg)
                       @ [Console_log (check_mark @ '' Notification sent'')]))
          \<and> (classify ev = System \<and> bind_e (getProp data ''event'') (join_value P) = Inr s
            \<longrightarrow> webhook_handler P config body signature
                  = (Json_response 200 (JObj [(''success'', JBool True)]),
                     [Console_log (''['' @ Date_now_toISOString P @ ''] Received '' @ kind @ '' event''),
                      Console_log (''System event: '' @ s)]))
          \<and> (classify ev = Unknown
            \<longrightarrow> webhook_handler P config body signature
                  = (Json_response 200 (JObj [(''success'', JBool True)]),
                     [Console_log (''['' @ Date_now_toISOString P @ ''] Received '' @ kind @ '' event''),
                      Console_log (''Unknown event type: '' @ kind)]))
          \<and> (classify ev = Mention \<and> formatMention P data = Inl e
               \<or> classify ev = Notification \<and> formatNotification P data = Inl e
               \<or> classify ev = System \<and> bind_e (getProp data ''event'') (join_value P) = Inl e
            \<longrightarrow> webhook_handler P config body signature
                  = (Json_response 500 (JObj [(''error'', JStr ''Internal error'')]),
                     [Console_log (''['' @ Date_now_toISOString P @ ''] Received '' @ kind @ '' event''),
                      Console_error (''Webhook error: '' @ error_message P e)])))
   \<and> (verifySignature P body signature (config ''KNOBASE_WEBHOOK_SECRET'') = Inr True
        \<and> (getProp body ''event'' = Inl e
            \<or> getProp body ''event'' = Inr ev \<and> template_value P ev = Inl e)
      \<longrightarrow> webhook_handler P config body signature
            = (Json_response 500 (JObj [(''error'', JStr ''Internal error'')]),
               [Console_error (''Webhook error: '' @ error_message P e)]))
   \<and> (express_json P req = Refused status
      \<longrightarrow> knobase_endpoint P config req = (Error_page status, []))
   \<and> (express_json P req = Parsed body
      \<longrightarrow> knobase_endpoint P config req
            = webhook_handler P config body (headers req ''x-knobase-signature''))"
proof (intro conjI impI; (elim conjE)?)
  show "fst (webhook_handler P config body signature)
     \<in> {Json_response 401 (JObj [(''error'', JStr ''Invalid signature'')]),
         Json_response 200 (JObj [(''success'', JBool True)]),
         Json_response 500 (JObj [(''error'', JStr ''Internal error'')])}"
    by (rule handler_three_responses)
next
  assume "verifySignature P body signature (config ''KNOBASE_WEBHOOK_SECRET'') = Inr False"
  then show "webhook_handler P config body signature
            = (Json_response 401 (JObj [(''error'', JStr ''Invalid signature'')]),
               [Console_log ''Invalid webhook signature''])"
    by (rule handler_invalid)
next
  assume "verifySignature P body signature (config ''KNOBASE_WEBHOOK_SECRET'') = Inl e"
  then show "webhook_handler P config body signature
            = (Json_response 500 (JObj [(''error'', JStr ''Internal error'')]),
               [Console_error (''Webhook error: '' @ error_message P e)])"
    by (rule handler_verify_throws)
next
  assume v: "verifySignature P body signature (config ''KNOBASE_WEBHOOK_SECRET'') = Inr True"
    and ev: "getProp body ''event'' = Inr ev" and d: "getProp body ''data'' = Inr data"
    and t: "template_value P ev = Inr kind"
  note hv = handler_valid [of P body signature config, OF v ev d t]
  {
    assume "classify ev = Mention" and "formatMention P data = Inr msg"
    then show "webhook_handler P config body signature
                  = (Json_response 200 (JObj [(''success'', JBool True)]),
                     Console_log (''['' @ Date_now_toISOString P @ ''] Received '' @ kind @ '' event'')
                       # snd (sendTelegram P config msg)
                       @ [Console_log (check_mark @ '' Mention notification sent'')])"
      by (simp add: webhook_handler_def hv dispatch_mention io_simps)
  next
    assume "classify ev = Notification" and "formatNotification P data = Inr msg"
    then show "webhook_handler P config body signature
                  = (Json_response 200 (JObj [(''success'', JBool True)]),
                     Console_log (''['' @ Date_now_toISOString P @ ''] Received '' @ kind @ '' event'')
                       # snd (sendTelegram P config msg)
                       @ [Console_log (check_mark @ '' Notification sent'')])"
      by (simp add: webhook_handler_def hv dispatch_notification io_simps)
  next
    assume "classify ev = System" and "bind_e (getProp data ''event'') (join_value P) = Inr s"
    then show "webhook_handler P config body signature
                  = (Json_response 200 (JObj [(''success'', JBool True)]),
                     [Console_log (''['' @ Date_now_toISOString P @ ''] Received '' @ kind @ '' event''),
                      Console_log (''System event: '' @ s)])"
      by (simp add: webhook_handler_def hv dispatch_system io_simps)
  next
    assume "classify ev = Unknown"
    then show "webhook_handler P config body signature
                  = (Json_response 200 (JObj [(''success'', JBool True)]),
                     [Console_log (''['' @ Date_now_toISOString P @ ''] Received '' @ kind @ '' event''),
                      Console_log (''Unknown event type: '' @ kind)])"
      by (simp add: webhook_handler_def hv dispatch_unknown io_simps)
  next
    assume "classify ev = Mention \<and> formatMention P data = Inl e
               \<or> classify ev = Notification \<and> formatNotification P data = Inl e
               \<or> classify ev = System \<and> bind_e (getProp data ''event'') (join_value P) = Inl e"
    then show "webhook_handler P config body signature
                  = (Json_response 500 (JObj [(''error'', JStr ''Internal error'')]),
                     [Console_log (''['' @ Date_now_toISOString P @ ''] Received '' @ kind @ '' event''),
                      Console_error (''Webhook error: '' @ error_message P e)])"
      by (elim disjE conjE)
         (simp_all add: webhook_handler_def hv dispatch_mention dispatch_notification
            dispatch_system io_simps)
  }
next
  assume v: "verifySignature P body signature (config ''KNOBASE_WEBHOOK_SECRET'') = Inr True"
    and "getProp body ''event'' = Inl e
            \<or> getProp body ''event'' = Inr ev \<and> template_value P ev = Inl e"
  then show "webhook_handler P config body signature
            = (Json_response 500 (JObj [(''error'', JStr ''Internal error'')]),
               [Console_error (''Webhook error: '' @ error_message P e)])"
    using handler_event_throws [of P body signature config e]
      handler_text_throws [of P body signature config ev e] by blast
next
  assume "express_json P req = Refused status"
  then show "knobase_endpoint P config req = (Error_page status, [])"
    by (simp add: knobase_endpoint_def)
next
  assume "express_json P req = Parsed body"
  then show "knobase_endpoint P config req
            = webhook_handler P config body (headers req ''x-knobase-signature'')"
    by (simp add: knobase_endpoint_def)
qed

text \<open>
  Instances of C2 under the example configuration: a header of the wrong length; a
  header with a body that was not parsed; a mention, a notification, a system event and
  an event of unknown kind without header; a mention without data; no header and a body
  that was not parsed; a text that ends too early; and the bytes of the mention.
\<close>

theorem webhook_responses_witness:
  "verifySignature example_platform (Some ping) (Some ''abc'')
       (example_config ''KNOBASE_WEBHOOK_SECRET'') = Inr False
   \<and> webhook_handler example_platform example_config (Some ping) (Some ''abc'')
       = (Json_response 401 (JObj [(''error'', JStr ''Invalid signature'')]),
          [Console_log ''Invalid webhook signature''])
   \<and> verifySignature example_platform None (Some ''abc'')
       (example_config ''KNOBASE_WEBHOOK_SECRET'') = Inl TypeError
   \<and> webhook_handler example_platform example_config None (Some ''abc'')
       = (Json_response 500 (JObj [(''error'', JStr ''Internal error'')]),
          [Console_error (''Webhook error: '' @ error_message example_platform TypeError)])
   \<and> (verifySignature example_platform (Some mention_event) None
         (example_config ''KNOBASE_WEBHOOK_SECRET'') = Inr True
      \<and> getProp (Some mention_event) ''event'' = Inr (Some (JStr ''mention''))
      \<and> getProp (Some mention_event) ''data'' = Inr (Some (JObj alice_fields))
      \<and> template_value example_platform (Some (JStr ''mention'')) = Inr ''mention''
      \<and> classify (Some (JStr ''mention'') :: example_number json option) = Mention
      \<and> formatMention example_platform (Some (JObj alice_fields)) = Inr alice_message)
   \<and> webhook_handler example_platform example_config (Some mention_event) None
       = (Json_response 200 (JObj [(''success'', JBool True)]),
          [received ''mention'', example_fetch alice_message,
           Console_log (check_mark @ '' Mention notification sent'')])
   \<and> (verifySignature example_platform (Some notification_event) None
         (example_config ''KNOBASE_WEBHOOK_SECRET'') = Inr True
      \<and> getProp (Some notification_event) ''event'' = Inr (Some (JStr ''notification''))
      \<and> getProp (Some notification_event) ''data'' = Inr (Some (JObj stale_fields))
      \<and> template_value example_platform (Some (JStr ''notification'')) = Inr ''notification''
      \<and> classify (Some (JStr ''notification'') :: example_number json option) = Notification
      \<and> formatNotification example_platform (Some (JObj stale_fields)) = Inr stale_notification)
   \<and> webhook_handler example_platform example_config (Some notification_event) None
       = (Json_response 200 (JObj [(''success'', JBool True)]),
          [received ''notification'', example_fetch stale_notification,
           Console_log (check_mark @ '' Notification sent'')])
   \<and> (verifySignature example_platform (Some system_event) None
         (example_config ''KNOBASE_WEBHOOK_SECRET'') = Inr True
      \<and> getProp (Some system_event) ''event'' = Inr (Some (JStr ''system''))
      \<and> getProp (Some system_event) ''data'' = Inr (Some (JObj [(''event'', JStr ''restart'')]))
      \<and> template_value example_platform (Some (JStr ''system'')) = Inr ''system''
      \<and> classify (Some (JStr ''system'') :: example_number json option) = System
      \<and> bind_e (getProp (Some (JObj [(''event'', JStr ''restart'')])) ''event'')
           (join_value example_platform) = Inr ''restart'')
   \<and> webhook_handler example_platform example_config (Some system_event) None
       = (Json_response 200 (JObj [(''success'', JBool True)]),
          [received ''system'', Console_log ''System event: restart''])
   \<and> (verifySignature example_platform (Some ping) None
         (example_config ''KNOBASE_WEBHOOK_SECRET'') = Inr True
      \<and> getProp (Some ping) ''event'' = Inr (Some (JStr ''ping''))
      \<and> getProp (Some ping) ''data'' = Inr None
      \<and> template_value example_platform (Some (JStr ''ping'')) = Inr ''ping''
      \<and> classify (Some (JStr ''ping'') :: example_number json option) = Unknown)
   \<and> webhook_handler example_platform example_config (Some ping) None
       = (Json_response 200 (JObj [(''success'', JBool True)]),
          [received ''ping'', Console_log ''Unknown event type: ping''])
   \<and> (verifySignature example_platform (Some dataless_mention) None
         (example_config ''KNOBASE_WEBHOOK_SECRET'') = Inr True
      \<and> getProp (Some dataless_mention) ''event'' = Inr (Some (JStr ''mention''))
      \<and> getProp (Some dataless_mention) ''data'' = Inr None
      \<and> formatMention example_platform None = Inl TypeError)
   \<and> webhook_handler example_platform example_config (Some dataless_mention) None
       = (Json_response 500 (JObj [(''error'', JStr ''Internal error'')]),
          [received ''mention'',
           Console_error (''Webhook error: '' @ error_message example_platform TypeError)])
   \<and> (verifySignature example_platform None None
         (example_config ''KNOBASE_WEBHOOK_SECRET'') = Inr True
      \<and> getProp (None :: example_number json option) ''event'' = Inl TypeError)
   \<and> webhook_handler example_platform example_config None None
       = (Json_response 500 (JObj [(''error'', JStr ''Internal error'')]),
          [Console_error (''Webhook error: '' @ error_message example_platform TypeError)])
   \<and> express_json example_platform (post ''application/json'' truncated_body None) = Refused 400
   \<and> knobase_endpoint example_platform example_config
         (post ''application/json'' truncated_body None)
       = (Error_page 400, [])
   \<and> express_json example_platform (post ''application/json'' mention_alice None)
       = Parsed (Some mention_event)
   \<and> knobase_endpoint example_platform example_config
         (post ''application/json'' mention_alice None)
       = webhook_handler example_platform example_config (Some mention_event)
           (headers (post ''application/json'' mention_alice None) ''x-knobase-signature'')"
proof -
  note t = webhook_responses [where P = example_platform and config = example_config]

  have h1: "verifySignature example_platform (Some ping) (Some ''abc'')
       (example_config ''KNOBASE_WEBHOOK_SECRET'') = Inr False"
    by (simp add: example_secret verifySignature_wrong_length)
  from h1 t [where body = "Some ping" and signature = "Some ''abc''"]
  have c1: "webhook_handler example_platform example_config (Some ping) (Some ''abc'')
       = (Json_response 401 (JObj [(''error'', JStr ''Invalid signature'')]),
          [Console_log ''Invalid webhook signature''])"
    by blast

  have h2: "verifySignature example_platform None (Some ''abc'')
       (example_config ''KNOBASE_WEBHOOK_SECRET'') = Inl TypeError"
    by (simp add: example_secret verifySignature_undefined)
  from h2 t [where body = None and signature = "Some ''abc''" and e = TypeError]
  have c2: "webhook_handler example_platform example_config None (Some ''abc'')
       = (Json_response 500 (JObj [(''error'', JStr ''Internal error'')]),
          [Console_error (''Webhook error: '' @ error_message example_platform TypeError)])"
    by blast

  have h3: "verifySignature example_platform (Some mention_event) None
         (example_config ''KNOBASE_WEBHOOK_SECRET'') = Inr True
      \<and> getProp (Some mention_event) ''event'' = Inr (Some (JStr ''mention''))
      \<and> getProp (Some mention_event) ''data'' = Inr (Some (JObj alice_fields))
      \<and> template_value example_platform (Some (JStr ''mention'')) = Inr ''mention''
      \<and> classify (Some (JStr ''mention'') :: example_number json option) = Mention
      \<and> formatMention example_platform (Some (JObj alice_fields)) = Inr alice_message"
    by code_simp
  have x3: "Console_log (''['' @ Date_now_toISOString example_platform @ ''] Received ''
                @ ''mention'' @ '' event'')
              # snd (sendTelegram example_platform example_config alice_message)
              @ [Console_log (check_mark @ '' Mention notification sent'')]
      = [received ''mention'', example_fetch alice_message,
         Console_log (check_mark @ '' Mention notification sent'')]"
    by code_simp
  from h3 t [where body = "Some mention_event" and signature = None
      and ev = "Some (JStr ''mention'')" and data = "Some (JObj alice_fields)"
      and kind = "''mention''" and msg = alice_message]
  have c3: "webhook_handler example_platform example_config (Some mention_event) None
       = (Json_response 200 (JObj [(''success'', JBool True)]),
          [received ''mention'', example_fetch alice_message,
           Console_log (check_mark @ '' Mention notification sent'')])"
    unfolding x3 by blast

  have h4: "verifySignature example_platform (Some notification_event) None
         (example_config ''KNOBASE_WEBHOOK_SECRET'') = Inr True
      \<and> getProp (Some notification_event) ''event'' = Inr (Some (JStr ''notification''))
      \<and> getProp (Some notification_event) ''data'' = Inr (Some (JObj stale_fields))
      \<and> template_value example_platform (Some (JStr ''notification'')) = Inr ''notification''
      \<and> classify (Some (JStr ''notification'') :: example_number json option) = Notification
      \<and> formatNotification example_platform (Some (JObj stale_fields)) = Inr stale_notification"
    by code_simp
  have x4: "Console_log (''['' @ Date_now_toISOString example_platform @ ''] Received ''
                @ ''notification'' @ '' event'')
              # snd (sendTelegram example_platform example_config stale_notification)
              @ [Console_log (check_mark @ '' Notification sent'')]
      = [received ''notification'', example_fetch stale_notification,
         Console_log (check_mark @ '' Notification sent'')]"
    by code_simp
  from h4 t [where body = "Some notification_event" and signature = None
      and ev = "Some (JStr ''notification'')" and data = "Some (JObj stale_fields)"
      and kind = "''notification''" and msg = stale_notification]
  have c4: "webhook_handler example_platform example_config (Some notification_event) None
       = (Json_response 200 (JObj [(''success'', JBool True)]),
          [received ''notification'', example_fetch stale_notification,
           Console_log (check_mark @ '' Notification sent'')])"
    unfolding x4 by blast

  have h5: "verifySignature example_platform (Some system_event) None
         (example_config ''KNOBASE_WEBHOOK_SECRET'') = Inr True
      \<and> getProp (Some system_event) ''event'' = Inr (Some (JStr ''system''))
      \<and> getProp (Some system_event) ''data'' = Inr (Some (JObj [(''event'', JStr ''restart'')]))
      \<and> template_value example_platform (Some (JStr ''system'')) = Inr ''system''
      \<and> classify (Some (JStr ''system'') :: example_number json option) = System
      \<and> bind_e (getProp (Some (JObj [(''event'', JStr ''restart'')])) ''event'')
           (join_value example_platform) = Inr ''restart''"
    by code_simp
  have x5: "[Console_log (''['' @ Date_now_toISOString example_platform @ ''] Received ''
                @ ''system'' @ '' event''),
             Console_log (''System event: '' @ ''restart'')]
      = [received ''system'', Console_log ''System event: restart'']"
    by code_simp
  from h5 t [where body = "Some system_event" and signature = None
      and ev = "Some (JStr ''system'')" and data = "Some (JObj [(''event'', JStr ''restart'')])"
      and kind = "''system''" and s = "''restart''"]
  have c5: "webhook_handler example_platform example_config (Some system_event) None
       = (Json_response 200 (JObj [(''success'', JBool True)]),
          [received ''system'', Console_log ''System event: restart''])"
    unfolding x5 by blast

  have h6: "verifySignature example_platform (Some ping) None
         (example_config ''KNOBASE_WEBHOOK_SECRET'') = Inr True
      \<and> getProp (Some ping) ''event'' = Inr (Some (JStr ''ping''))
      \<and> getProp (Some ping) ''data'' = Inr None
      \<and> template_value example_platform (Some (JStr ''ping'')) = Inr ''ping''
      \<and> classify (Some (JStr ''ping'') :: example_number json option) = Unknown"
    by code_simp
  have x6: "[Console_log (''['' @ Date_now_toISOString example_platform @ ''] Received ''
                @ ''ping'' @ '' event''),
             Console_log (''Unknown event type: '' @ ''ping'')]
      = [received ''ping'', Console_log ''Unknown event type: ping'']"
    by code_simp
  from h6 t [where body = "Some ping" and signature = None
      and ev = "Some (JStr ''ping'')" and data = None and kind = "''ping''"]
  have c6: "webhook_handler example_platform example_config (Some ping) None
       = (Json_response 200 (JObj [(''success'', JBool True)]),
          [received ''ping'', Console_log ''Unknown event type: ping''])"
    unfolding x6 by blast

  have h7: "verifySignature example_platform (Some dataless_mention) None
         (example_config ''KNOBASE_WEBHOOK_SECRET'') = Inr True
      \<and> getProp (Some dataless_mention) ''event'' = Inr (Some (JStr ''mention''))
      \<and> getProp (Some dataless_mention) ''data'' = Inr None
      \<and> formatMention example_platform None = Inl TypeError"
    by code_simp
  have h7': "template_value example_platform (Some (JStr ''mention'')) = Inr ''mention''
      \<and> classify (Some (JStr ''mention'') :: example_number json option) = Mention"
    by code_simp
  have x7: "[Console_log (''['' @ Date_now_toISOString example_platform @ ''] Received ''
                @ ''mention'' @ '' event''),
             Console_error (''Webhook error: '' @ error_message example_platform TypeError)]
      = [received ''mention'',
         Console_error (''Webhook error: '' @ error_message example_platform TypeError)]"
    by code_simp
  from h7 h7' t [where body = "Some dataless_mention" and signature = None
      and ev = "Some (JStr ''mention'')" and data = None and kind = "''mention''"
      and e = TypeError]
  have c7: "webhook_handler example_platform example_config (Some dataless_mention) None
       = (Json_response 500 (JObj [(''error'', JStr ''Internal error'')]),
          [received ''mention'',
           Console_error (''Webhook error: '' @ error_message example_platform TypeError)])"
    unfolding x7 by blast

  have h8: "verifySignature example_platform None None
         (example_config ''KNOBASE_WEBHOOK_SECRET'') = Inr True
      \<and> getProp (None :: example_number json option) ''event'' = Inl TypeError"
    by code_simp
  from h8 t [where body = None and signature = None and e = TypeError]
  have c8: "webhook_handler example_platform example_config None None
       = (Json_response 500 (JObj [(''error'', JStr ''Internal error'')]),
          [Console_error (''Webhook error: '' @ error_message example_platform TypeError)])"
    by blast

  have h9: "express_json example_platform (post ''application/json'' truncated_body None)
      = Refused 400"
    by code_simp
  have c9: "knobase_endpoint example_platform example_config
         (post ''application/json'' truncated_body None)
       = (Error_page 400, [])"
    by (rule mp [OF t [where req = "post ''application/json'' truncated_body None"
            and status = 400, THEN conjunct2, THEN conjunct2, THEN conjunct2, THEN conjunct2,
            THEN conjunct2, THEN conjunct1] h9])

  have h10: "express_json example_platform (post ''application/json'' mention_alice None)
       = Parsed (Some mention_event)"
    by code_simp
  have c10: "knobase_endpoint example_platform example_config
         (post ''application/json'' mention_alice None)
       = webhook_handler example_platform example_config (Some mention_event)
           (headers (post ''application/json'' mention_alice None) ''x-knobase-signature'')"
    by (rule mp [OF t [where req = "post ''application/json'' mention_alice None"
            and body = "Some mention_event", THEN conjunct2, THEN conjunct2, THEN conjunct2,
            THEN conjunct2, THEN conjunct2, THEN conjunct2] h10])

  show ?thesis
    by (rule h1 c1 h2 c2 h3 c3 h4 c4 h5 c5 h6 c6 h7 c7 h8 c8 h9 c9 h10 c10 conjI)+
qed

text \<open>
  Claim C2 as stated fails for a fault of the decoding. The text of the body ends too
  early; the body parser refuses it, the handler does not run, and the answer is the
  error page of status 400, not the response 500 of the handler.
\<close>

theorem decode_fault_counterexample:
  "express_json example_platform (post ''application/json'' truncated_body None) = Refused 400
   \<and> knobase_endpoint example_platform example_config
         (post ''application/json'' truncated_body None)
       = (Error_page 400, [])
   \<and> fst (knobase_endpoint example_platform example_config
             (post ''application/json'' truncated_body None))
       \<noteq> Json_response 500 (JObj [(''error'', JStr ''Internal error'')])"
  by code_simp

text \<open>
  Claim C6. The kind of an event is one of four. The three known names give their kinds
  and every other string gives \<^const>\<open>Unknown\<close>; a verified request with such an event is
  answered with 200 and success, after two log lines: no message is formatted and no
  request is sent.
\<close>

theorem unknown_event_acknowledged:
  "(classify e = Mention \<or> classify e = Notification \<or> classify e = System \<or> classify e = Unknown)
   \<and> classify (Some (JStr ''mention'')) = Mention
   \<and> classify (Some (JStr ''notification'')) = Notification
   \<and> classify (Some (JStr ''system'')) = System
   \<and> (s \<notin> {''mention'', ''notification'', ''system''}
      \<longrightarrow> classify (Some (JStr s)) = Unknown
          \<and> (verifySignature P body signature (config ''KNOBASE_WEBHOOK_SECRET'') = Inr True
               \<and> getProp body ''event'' = Inr (Some (JStr s))
             \<longrightarrow> webhook_handler P config body signature
                   = (Json_response 200 (JObj [(''success'', JBool True)]),
                      [Console_log (''['' @ Date_now_toISOString P @ ''] Received '' @ s @ '' event''),
                       Console_log (''Unknown event type: '' @ s)])))"
proof (intro conjI impI)
  show "classify e = Mention \<or> classify e = Notification \<or> classify e = System \<or> classify e = Unknown"
    by (cases "classify e") simp_all
next
  assume s: "s \<notin> {''mention'', ''notification'', ''system''}"
  then show u: "classify (Some (JStr s)) = Unknown"
    by (simp add: classify_def)
  assume h: "verifySignature P body signature (config ''KNOBASE_WEBHOOK_SECRET'') = Inr True
      \<and> getProp body ''event'' = Inr (Some (JStr s))"
  then have v: "verifySignature P body signature (config ''KNOBASE_WEBHOOK_SECRET'') = Inr True"
    and e: "getProp body ''event'' = Inr (Some (JStr s))" by simp_all
  from e obtain d where d: "getProp body ''data'' = Inr d"
    by (rule getProp_defined)
  have t: "template_value P (Some (JStr s)) = Inr s" by (simp add: template_value_def)
  show "webhook_handler P config body signature
       = (Json_response 200 (JObj [(''success'', JBool True)]),
          [Console_log (''['' @ Date_now_toISOString P @ ''] Received '' @ s @ '' event''),
           Console_log (''Unknown event type: '' @ s)])"
    by (simp add: webhook_handler_def handler_valid [of P body signature config, OF v e d t]
        dispatch_unknown [OF classify_other [OF s]] io_simps)
qed (simp_all add: classify_def)

text \<open>
  An instance of C6: the event of kind \<^verbatim>\<open>ping\<close>, without signature header, as the handler
  sees it and from its bytes on.
\<close>

theorem unknown_event_acknowledged_witness:
  "''ping'' \<notin> {''mention'', ''notification'', ''system''}
   \<and> (verifySignature example_platform (Some ping) None
         (example_config ''KNOBASE_WEBHOOK_SECRET'') = Inr True
      \<and> getProp (Some ping) ''event'' = Inr (Some (JStr ''ping'')))
   \<and> classify (Some (JStr ''ping'') :: example_number json option) = Unknown
   \<and> webhook_handler example_platform example_config (Some ping) None
       = (Json_response 200 (JObj [(''success'', JBool True)]),
          [Console_log (''['' @ Date_now_toISOString example_platform @ ''] Received ''
             @ ''ping'' @ '' event''),
           Console_log (''Unknown event type: '' @ ''ping'')])
   \<and> knobase_endpoint example_platform example_config (post ''application/json'' ping_compact None)
       = (Json_response 200 (JObj [(''success'', JBool True)]),
          [received ''ping'', Console_log ''Unknown event type: ping''])"
proof -
  have n: "''ping'' \<notin> {''mention'', ''notification'', ''system''}"
    by simp
  have h: "verifySignature example_platform (Some ping) None
         (example_config ''KNOBASE_WEBHOOK_SECRET'') = Inr True
      \<and> getProp (Some ping) ''event'' = Inr (Some (JStr ''ping''))"
    by code_simp
  note t = unknown_event_acknowledged
      [where s = "''ping''" and P = example_platform and config = example_config
         and body = "Some ping" and signature = None]
  note i = mp [OF t [THEN conjunct2, THEN conjunct2, THEN conjunct2, THEN conjunct2] n]
  have u: "classify (Some (JStr ''ping'') :: example_number json option) = Unknown"
    by (rule conjunct1 [OF i])
  have c: "webhook_handler example_platform example_config (Some ping) None
       = (Json_response 200 (JObj [(''success'', JBool True)]),
          [Console_log (''['' @ Date_now_toISOString example_platform @ ''] Received ''
             @ ''ping'' @ '' event''),
           Console_log (''Unknown event type: '' @ ''ping'')])"
    by (rule mp [OF conjunct2 [OF i] h])
  have w: "knobase_endpoint example_platform example_config
         (post ''application/json'' ping_compact None)
       = (Json_response 200 (JObj [(''success'', JBool True)]),
          [received ''ping'', Console_log ''Unknown event type: ping''])"
    by code_simp
  show ?thesis
    by (rule n h u c w conjI)+
qed

end
